theory Spec2Isabelle
  imports Main
begin

section \<open>Request values\<close>

text \<open>
  A field read from a JSON request body is either absent (JavaScript \<open>undefined\<close>),
  JSON \<open>null\<close>, or a value. Text fields carry strings, \<open>is_read\<close> carries a boolean
  and the login password a string, a number or a boolean; request values of other JSON
  types are outside this model.
\<close>

datatype 'a js = Undefined | Null | Val 'a

text \<open>JavaScript truthiness of a text field: only a non-empty string is truthy.\<close>

fun truthy :: "string js \<Rightarrow> bool" where
  "truthy (Val s) = (s \<noteq> [])"
| "truthy _ = False"

text \<open>The string handed to the SQL driver for a truthy field.\<close>

fun js_str :: "string js \<Rightarrow> string" where
  "js_str (Val s) = s"
| "js_str _ = []"

text \<open>\<open>x || null\<close>: a falsy field is stored as SQL NULL.\<close>

fun or_null :: "string js \<Rightarrow> string option" where
  "or_null (Val s) = (if s = [] then None else Some s)"
| "or_null _ = None"

text \<open>
  The login password is handed to \<open>bcrypt.compare\<close>, which tells a string from any other
  value, so it is kept as a JSON scalar: a string, a number or a boolean.
\<close>

datatype jsvalue = JString string | JNumber int | JBoolean bool

fun truthy_value :: "jsvalue js \<Rightarrow> bool" where
  "truthy_value (Val (JString x)) = (x \<noteq> [])"
| "truthy_value (Val (JNumber n)) = (n \<noteq> 0)"
| "truthy_value (Val (JBoolean b)) = b"
| "truthy_value _ = False"

text \<open>A parameter bound as it is: \<open>undefined\<close> and \<open>null\<close> both become SQL NULL.\<close>

fun sql_param :: "'a js \<Rightarrow> 'a option" where
  "sql_param (Val v) = Some v"
| "sql_param _ = None"

section \<open>Tables of db.sql\<close>

record user =
  u_user_id :: string
  u_name :: string
  u_email :: string
  u_password_hash :: string
  u_profile_picture :: "string option"
  u_user_role :: string
  u_created_at :: string
  u_updated_at :: string

record project =
  p_project_id :: string
  p_title :: string
  p_description :: "string option"
  p_due_date :: "string option"
  p_creator_id :: string
  p_created_at :: string
  p_updated_at :: string

record task =
  t_task_id :: string
  t_title :: string
  t_description :: "string option"
  t_due_date :: "string option"
  t_priority :: string
  t_status :: string
  t_creator_id :: string
  t_project_id :: "string option"
  t_created_at :: string
  t_updated_at :: string

record subtask =
  st_subtask_id :: string
  st_task_id :: string
  st_title :: string
  st_is_completed :: bool
  st_created_at :: string
  st_updated_at :: string

record task_comment =
  c_comment_id :: string
  c_task_id :: string
  c_user_id :: string
  c_comment_text :: string
  c_created_at :: string

record task_assignee =
  ta_record_id :: string
  ta_task_id :: string
  ta_user_id :: string
  ta_assigned_at :: string

record label =
  l_label_id :: string
  l_label_name :: string

record task_label =
  tl_record_id :: string
  tl_task_id :: string
  tl_label_id :: string

record notification =
  n_notification_id :: string
  n_user_id :: string
  n_notification_type :: string
  n_task_id :: "string option"
  n_message :: string
  n_is_read :: bool
  n_created_at :: string

section \<open>Identity claims, tokens and realtime events\<close>

text \<open>The payload signed into a token and stored in \<open>req.user\<close> / \<open>socket.user\<close>.\<close>

record claims =
  user_id :: string
  email :: string
  name :: string
  user_role :: string

text \<open>
  A decoded token: its payload, its expiry (seconds) and the secret whose signature it
  carries.
\<close>

record jwt =
  jwt_payload :: claims
  jwt_exp :: nat
  jwt_key :: string

record updated_fields =
  uf_status :: "string js"
  uf_priority :: "string js"
  uf_due_date :: "string js"

datatype event_data =
    TaskCreatedPayload string string "string js" "string option" string
  | TaskUpdatedPayload string updated_fields string
  | TaskDeletedPayload string
  | CommentPayload string string string string string

record envelope =
  event :: string
  data :: event_data

text \<open>A registered realtime connection and the envelopes it has been sent.\<close>

record socket =
  socket_id :: nat
  socket_user :: claims
  received :: "(string \<times> envelope) list"

section \<open>Server state\<close>

record server =
  users :: "user list"
  projects :: "project list"
  tasks :: "task list"
  subtasks :: "subtask list"
  task_comments :: "task_comment list"
  task_assignees :: "task_assignee list"
  labels :: "label list"
  task_labels :: "task_label list"
  notifications :: "notification list"
  sockets :: "socket list"

text \<open>What the process reads from its surroundings while serving one request.\<close>

record env =
  env_JWT_SECRET :: "string option"
  clock :: nat
  timestamp :: string
  uuidv4 :: "nat \<Rightarrow> string"
  bcrypt_hash :: "string \<Rightarrow> string"
  bcrypt_compare :: "string \<Rightarrow> string \<Rightarrow> bool"
  jwt_decode :: "string \<Rightarrow> jwt option"

section \<open>SQL statements\<close>

text \<open>
  Every statement runs on its own (the pool auto-commits; the handlers open no
  transaction). A statement that breaks a constraint declared in db.sql is rejected and
  changes nothing; the driver then throws.
\<close>

datatype db_error =
  UniqueViolation | ForeignKeyViolation | NotNullViolation | InvalidByteSequence

type_synonym statement = "server \<Rightarrow> db_error + server"

text \<open>
  The driver sends every parameter as text, and the storage refuses a text parameter that
  contains the NUL character, whatever the statement (\<open>invalid byte sequence for encoding
  "UTF8": 0x00\<close>). \<open>rejected\<close> takes the text parameters of a query, SQL NULL being
  \<open>None\<close>.
\<close>

definition has_nul :: "string \<Rightarrow> bool" where
  "has_nul x \<longleftrightarrow> CHR 0x00 \<in> set x"

definition rejected :: "string option list \<Rightarrow> bool" where
  "rejected ps \<longleftrightarrow> list_ex (\<lambda>p. case p of None \<Rightarrow> False | Some x \<Rightarrow> has_nul x) ps"

text \<open>\<open>await pool.query(text, params)\<close> for a SELECT: it throws, or it returns the rows.\<close>

definition pool_query :: "string option list \<Rightarrow> 'a \<Rightarrow> db_error + 'a" where
  "pool_query ps rows = (if rejected ps then Inl InvalidByteSequence else Inr rows)"

text \<open>
  A sequence of awaited queries: the first rejected one throws, and what the earlier
  ones wrote stays written.
\<close>

fun run :: "statement list \<Rightarrow> server \<Rightarrow> db_error option \<times> server" where
  "run [] s = (None, s)"
| "run (q # qs) s = (case q s of Inl e \<Rightarrow> (Some e, s) | Inr s' \<Rightarrow> run qs s')"

definition select_users_by_email :: "string \<Rightarrow> server \<Rightarrow> user list" where
  "select_users_by_email em s = filter (\<lambda>u. u_email u = em) (users s)"

definition select_task :: "string \<Rightarrow> server \<Rightarrow> task list" where
  "select_task tid s = filter (\<lambda>t. t_task_id t = tid) (tasks s)"

definition select_notification :: "string \<Rightarrow> server \<Rightarrow> notification list" where
  "select_notification nid s = filter (\<lambda>n. n_notification_id n = nid) (notifications s)"

definition insert_user :: "user \<Rightarrow> statement" where
  "insert_user u s =
     (if rejected [Some (u_user_id u), Some (u_name u), Some (u_email u),
                   Some (u_password_hash u), u_profile_picture u, Some (u_user_role u),
                   Some (u_created_at u), Some (u_updated_at u)]
      then Inl InvalidByteSequence
      else if u_user_id u \<in> set (map u_user_id (users s)) then Inl UniqueViolation
      else if u_email u \<in> set (map u_email (users s)) then Inl UniqueViolation
      else Inr (s\<lparr>users := users s @ [u]\<rparr>))"

text \<open>
  The task columns \<open>priority\<close> and \<open>status\<close> are NOT NULL; the handler binds them as
  they came from the body, so they arrive here as nullable parameters.
\<close>

definition insert_task ::
  "string \<Rightarrow> string \<Rightarrow> string option \<Rightarrow> string option \<Rightarrow> string option \<Rightarrow> string option
     \<Rightarrow> string \<Rightarrow> string option \<Rightarrow> string \<Rightarrow> string \<Rightarrow> statement" where
  "insert_task tid ttl descr due prio stat creator proj c_at u_at s =
     (if rejected [Some tid, Some ttl, descr, due, prio, stat, Some creator, proj, Some c_at,
                   Some u_at]
      then Inl InvalidByteSequence
      else
        (case (prio, stat) of
           (Some p, Some st) \<Rightarrow>
             if tid \<in> set (map t_task_id (tasks s)) then Inl UniqueViolation
             else if creator \<notin> set (map u_user_id (users s)) then Inl ForeignKeyViolation
             else if (case proj of None \<Rightarrow> False
                      | Some pid \<Rightarrow> pid \<notin> set (map p_project_id (projects s)))
             then Inl ForeignKeyViolation
             else Inr (s\<lparr>tasks := tasks s @
                    [\<lparr>t_task_id = tid, t_title = ttl, t_description = descr, t_due_date = due,
                      t_priority = p, t_status = st, t_creator_id = creator,
                      t_project_id = proj, t_created_at = c_at, t_updated_at = u_at\<rparr>]\<rparr>)
         | _ \<Rightarrow> Inl NotNullViolation))"

definition insert_subtask :: "string \<Rightarrow> string \<Rightarrow> string option \<Rightarrow> string \<Rightarrow> statement" where
  "insert_subtask sid tid ttl ts s =
     (if rejected [Some sid, Some tid, ttl, Some ts, Some ts] then Inl InvalidByteSequence
      else
        (case ttl of
           None \<Rightarrow> Inl NotNullViolation
         | Some tt \<Rightarrow>
             if sid \<in> set (map st_subtask_id (subtasks s)) then Inl UniqueViolation
             else if tid \<notin> set (map t_task_id (tasks s)) then Inl ForeignKeyViolation
             else Inr (s\<lparr>subtasks := subtasks s @
                    [\<lparr>st_subtask_id = sid, st_task_id = tid, st_title = tt,
                      st_is_completed = False, st_created_at = ts, st_updated_at = ts\<rparr>]\<rparr>)))"

definition insert_task_assignee :: "string \<Rightarrow> string \<Rightarrow> string \<Rightarrow> string \<Rightarrow> statement" where
  "insert_task_assignee rid tid uid ts s =
     (if rejected [Some rid, Some tid, Some uid, Some ts] then Inl InvalidByteSequence
      else if rid \<in> set (map ta_record_id (task_assignees s)) then Inl UniqueViolation
      else if tid \<notin> set (map t_task_id (tasks s)) then Inl ForeignKeyViolation
      else if uid \<notin> set (map u_user_id (users s)) then Inl ForeignKeyViolation
      else Inr (s\<lparr>task_assignees := task_assignees s @
             [\<lparr>ta_record_id = rid, ta_task_id = tid, ta_user_id = uid, ta_assigned_at = ts\<rparr>]\<rparr>))"

definition insert_task_label :: "string \<Rightarrow> string \<Rightarrow> string \<Rightarrow> statement" where
  "insert_task_label rid tid lid s =
     (if rejected [Some rid, Some tid, Some lid] then Inl InvalidByteSequence
      else if rid \<in> set (map tl_record_id (task_labels s)) then Inl UniqueViolation
      else if tid \<notin> set (map t_task_id (tasks s)) then Inl ForeignKeyViolation
      else if lid \<notin> set (map l_label_id (labels s)) then Inl ForeignKeyViolation
      else Inr (s\<lparr>task_labels := task_labels s @
             [\<lparr>tl_record_id = rid, tl_task_id = tid, tl_label_id = lid\<rparr>]\<rparr>))"

definition insert_task_comment ::
  "string \<Rightarrow> string \<Rightarrow> string \<Rightarrow> string \<Rightarrow> string \<Rightarrow> statement" where
  "insert_task_comment cid tid uid txt ts s =
     (if rejected [Some cid, Some tid, Some uid, Some txt, Some ts] then Inl InvalidByteSequence
      else if cid \<in> set (map c_comment_id (task_comments s)) then Inl UniqueViolation
      else if tid \<notin> set (map t_task_id (tasks s)) then Inl ForeignKeyViolation
      else if uid \<notin> set (map u_user_id (users s)) then Inl ForeignKeyViolation
      else Inr (s\<lparr>task_comments := task_comments s @
             [\<lparr>c_comment_id = cid, c_task_id = tid, c_user_id = uid, c_comment_text = txt,
               c_created_at = ts\<rparr>]\<rparr>))"

text \<open>
  No table references the four child tables, so these deletions break no constraint.
\<close>

definition delete_subtasks :: "string \<Rightarrow> statement" where
  "delete_subtasks tid s =
     (if rejected [Some tid] then Inl InvalidByteSequence
      else Inr (s\<lparr>subtasks := filter (\<lambda>r. st_task_id r \<noteq> tid) (subtasks s)\<rparr>))"

definition delete_task_comments :: "string \<Rightarrow> statement" where
  "delete_task_comments tid s =
     (if rejected [Some tid] then Inl InvalidByteSequence
      else Inr (s\<lparr>task_comments := filter (\<lambda>r. c_task_id r \<noteq> tid) (task_comments s)\<rparr>))"

definition delete_task_assignees :: "string \<Rightarrow> statement" where
  "delete_task_assignees tid s =
     (if rejected [Some tid] then Inl InvalidByteSequence
      else Inr (s\<lparr>task_assignees := filter (\<lambda>r. ta_task_id r \<noteq> tid) (task_assignees s)\<rparr>))"

definition delete_task_labels :: "string \<Rightarrow> statement" where
  "delete_task_labels tid s =
     (if rejected [Some tid] then Inl InvalidByteSequence
      else Inr (s\<lparr>task_labels := filter (\<lambda>r. tl_task_id r \<noteq> tid) (task_labels s)\<rparr>))"

text \<open>
  Five tables declare \<open>FOREIGN KEY (task_id) REFERENCES tasks(task_id)\<close> with the default
  action: a task row that is still referenced cannot be deleted.
\<close>

definition task_referenced :: "string \<Rightarrow> server \<Rightarrow> bool" where
  "task_referenced tid s \<longleftrightarrow>
     tid \<in> set (map st_task_id (subtasks s)) \<or>
     tid \<in> set (map c_task_id (task_comments s)) \<or>
     tid \<in> set (map ta_task_id (task_assignees s)) \<or>
     tid \<in> set (map tl_task_id (task_labels s)) \<or>
     Some tid \<in> set (map n_task_id (notifications s))"

definition delete_task_row :: "string \<Rightarrow> statement" where
  "delete_task_row tid s =
     (if rejected [Some tid] then Inl InvalidByteSequence
      else if tid \<in> set (map t_task_id (tasks s)) \<and> task_referenced tid s
      then Inl ForeignKeyViolation
      else Inr (s\<lparr>tasks := filter (\<lambda>r. t_task_id r \<noteq> tid) (tasks s)\<rparr>))"

definition update_notification_is_read :: "bool option \<Rightarrow> string \<Rightarrow> statement" where
  "update_notification_is_read v nid s =
     (if rejected [Some nid] then Inl InvalidByteSequence
      else
        (case v of
           None \<Rightarrow> if nid \<in> set (map n_notification_id (notifications s))
                   then Inl NotNullViolation else Inr s
         | Some b \<Rightarrow>
             Inr (s\<lparr>notifications :=
                    map (\<lambda>n. if n_notification_id n = nid then n\<lparr>n_is_read := b\<rparr> else n)
                      (notifications s)\<rparr>)))"

text \<open>
  \<open>UPDATE tasks SET ... WHERE task_id = $n RETURNING *\<close>: the statement is assembled from a
  list of column assignments. The foreign key on \<open>project_id\<close> is checked for a row whose
  \<open>project_id\<close> changes.
\<close>

datatype task_column =
  Col_title | Col_description | Col_due_date | Col_priority | Col_status | Col_project_id
  | Col_updated_at

fun set_column :: "task_column \<Rightarrow> string option \<Rightarrow> task \<Rightarrow> db_error + task" where
  "set_column Col_description v t = Inr (t\<lparr>t_description := v\<rparr>)"
| "set_column Col_due_date v t = Inr (t\<lparr>t_due_date := v\<rparr>)"
| "set_column Col_project_id v t = Inr (t\<lparr>t_project_id := v\<rparr>)"
| "set_column c None t = Inl NotNullViolation"
| "set_column Col_title (Some v) t = Inr (t\<lparr>t_title := v\<rparr>)"
| "set_column Col_priority (Some v) t = Inr (t\<lparr>t_priority := v\<rparr>)"
| "set_column Col_status (Some v) t = Inr (t\<lparr>t_status := v\<rparr>)"
| "set_column Col_updated_at (Some v) t = Inr (t\<lparr>t_updated_at := v\<rparr>)"

fun assign :: "(task_column \<times> string option) list \<Rightarrow> task \<Rightarrow> db_error + task" where
  "assign [] t = Inr t"
| "assign ((c, v) # cvs) t =
     (case set_column c v t of Inl e \<Rightarrow> Inl e | Inr t' \<Rightarrow> assign cvs t')"

definition project_fk_broken :: "project list \<Rightarrow> task \<Rightarrow> task \<Rightarrow> bool" where
  "project_fk_broken ps old new \<longleftrightarrow>
     t_project_id new \<noteq> t_project_id old \<and>
     (case t_project_id new of None \<Rightarrow> False
      | Some pid \<Rightarrow> pid \<notin> set (map p_project_id ps))"

fun update_rows ::
  "(task_column \<times> string option) list \<Rightarrow> string \<Rightarrow> project list \<Rightarrow> task list
     \<Rightarrow> db_error + task list" where
  "update_rows cvs tid ps [] = Inr []"
| "update_rows cvs tid ps (t # ts) =
     (if t_task_id t = tid then
        (case assign cvs t of
           Inl e \<Rightarrow> Inl e
         | Inr t' \<Rightarrow>
             if project_fk_broken ps t t' then Inl ForeignKeyViolation
             else (case update_rows cvs tid ps ts of
                     Inl e \<Rightarrow> Inl e
                   | Inr ts' \<Rightarrow> Inr (t' # ts')))
      else (case update_rows cvs tid ps ts of
              Inl e \<Rightarrow> Inl e
            | Inr ts' \<Rightarrow> Inr (t # ts')))"

definition update_tasks ::
  "(task_column \<times> string option) list \<Rightarrow> string \<Rightarrow> server \<Rightarrow> db_error + server \<times> task list" where
  "update_tasks cvs tid s =
     (if rejected (map snd cvs @ [Some tid]) then Inl InvalidByteSequence
      else
        (case update_rows cvs tid (projects s) (tasks s) of
           Inl e \<Rightarrow> Inl e
         | Inr ts' \<Rightarrow> Inr (s\<lparr>tasks := ts'\<rparr>, filter (\<lambda>t. t_task_id t = tid) ts')))"

text \<open>
  The WHERE clause of the task list is a string that the handler extends by
  concatenation. It is kept as the sequence of its conditions and connectives and read
  as SQL reads it: \<open>AND\<close> binds tighter than \<open>OR\<close>, so the clause is a disjunction of
  conjunctions.
\<close>

datatype condition =
    Creator_is string
  | Task_assigned_to string
  | Status_is string

datatype where_token = Cond condition | OR | AND

fun disjuncts :: "where_token list \<Rightarrow> condition list list" where
  "disjuncts [] = [[]]"
| "disjuncts (OR # ws) = [] # disjuncts ws"
| "disjuncts (AND # ws) = disjuncts ws"
| "disjuncts (Cond c # ws) =
     (case disjuncts ws of [] \<Rightarrow> [[c]] | d # ds \<Rightarrow> (c # d) # ds)"

fun holds :: "server \<Rightarrow> task \<Rightarrow> condition \<Rightarrow> bool" where
  "holds s t (Creator_is uid) = (t_creator_id t = uid)"
| "holds s t (Task_assigned_to uid) =
     (t_task_id t \<in> set (map ta_task_id (filter (\<lambda>a. ta_user_id a = uid) (task_assignees s))))"
| "holds s t (Status_is v) = (t_status t = v)"

definition sql_where :: "where_token list \<Rightarrow> server \<Rightarrow> task \<Rightarrow> bool" where
  "sql_where ws s t = list_ex (list_all (holds s t)) (disjuncts ws)"

text \<open>The two correlated \<open>json_agg\<close> subqueries of the task list.\<close>

definition assignees_of :: "server \<Rightarrow> string \<Rightarrow> string list" where
  "assignees_of s tid = map ta_user_id (filter (\<lambda>a. ta_task_id a = tid) (task_assignees s))"

definition labels_of :: "server \<Rightarrow> string \<Rightarrow> string list" where
  "labels_of s tid = map tl_label_id (filter (\<lambda>l. tl_task_id l = tid) (task_labels s))"

definition select_task_list ::
  "where_token list \<Rightarrow> server \<Rightarrow> (task \<times> string list \<times> string list) list" where
  "select_task_list ws s =
     map (\<lambda>t. (t, assignees_of s (t_task_id t), labels_of s (t_task_id t)))
       (filter (sql_where ws s) (tasks s))"

section \<open>Responses and the event publisher\<close>

datatype body =
    Message string
  | AuthBody string jwt claims
  | TaskCreatedBody string event_data
  | TaskBody string "task option"
  | TasksBody "(task \<times> string list \<times> string list) list"
  | TaskDetailBody task "(string \<times> string \<times> bool) list"
      "(string \<times> string \<times> string \<times> string) list" "(string \<times> string) list" "string list"
  | CommentBody string event_data

record response =
  status_code :: nat
  json :: body

definition reply :: "nat \<Rightarrow> body \<Rightarrow> response" where
  "reply c b = \<lparr>status_code = c, json = b\<rparr>"

definition internal_server_error :: response where
  "internal_server_error = reply 500 (Message ''Internal server error'')"

text \<open>
  \<open>io.emit(name, message)\<close> of Socket.IO: the message goes to every connected socket.
\<close>

definition io_emit :: "string \<Rightarrow> envelope \<Rightarrow> server \<Rightarrow> server" where
  "io_emit ev msg s =
     s\<lparr>sockets := map (\<lambda>k. k\<lparr>received := received k @ [(ev, msg)]\<rparr>) (sockets s)\<rparr>"

section \<open>Token authentication\<close>

text \<open>\<open>process.env.JWT_SECRET || "your_jwt_secret"\<close>\<close>

definition JWT_SECRET :: "env \<Rightarrow> string" where
  "JWT_SECRET e =
     (case env_JWT_SECRET e of
        None \<Rightarrow> ''your_jwt_secret''
      | Some k \<Rightarrow> if k = [] then ''your_jwt_secret'' else k)"

text \<open>
  \<open>jwt.sign(payload, secret, { expiresIn: "1d" })\<close>: the token carries the payload, an
  expiry 24 hours (86400 seconds) from now, and the signature of the secret.
\<close>

definition jwt_sign :: "env \<Rightarrow> claims \<Rightarrow> string \<Rightarrow> jwt" where
  "jwt_sign e payload secret = \<lparr>jwt_payload = payload, jwt_exp = clock e + 86400, jwt_key = secret\<rparr>"

text \<open>
  Modelled from the spec: \<open>jwt.verify\<close> belongs to the jsonwebtoken package, which is not
  part of the repository. The verification routine parses the token, checks the signature
  against the server secret and checks that the expiry is later than now; success yields
  the identity claim, failure an error.
\<close>

definition jwt_verify :: "env \<Rightarrow> string \<Rightarrow> string \<Rightarrow> claims option" where
  "jwt_verify e token secret =
     (case jwt_decode e token of
        None \<Rightarrow> None
      | Some t \<Rightarrow> if jwt_key t = secret \<and> clock e < jwt_exp t then Some (jwt_payload t) else None)"

text \<open>\<open>String.prototype.split\<close> with a one-character separator.\<close>

fun split :: "char \<Rightarrow> string \<Rightarrow> string list" where
  "split c [] = [[]]"
| "split c (x # xs) =
     (if x = c then [] # split c xs
      else (case split c xs of [] \<Rightarrow> [[x]] | w # ws \<Rightarrow> (x # w) # ws))"

text \<open>Indexing an array: out of range is \<open>undefined\<close>.\<close>

definition at :: "'a list \<Rightarrow> nat \<Rightarrow> 'a option" where
  "at xs i = (if i < length xs then Some (xs ! i) else None)"

text \<open>The bearer token read by the HTTP middleware; \<open>None\<close> when \<open>!token\<close>.\<close>

definition bearer_token :: "string option \<Rightarrow> string option" where
  "bearer_token authHeader =
     (case authHeader of
        None \<Rightarrow> None
      | Some h \<Rightarrow>
          if h = [] then None
          else (case at (split CHR '' '' h) 1 of
                  None \<Rightarrow> None
                | Some tk \<Rightarrow> if tk = [] then None else Some tk))"

text \<open>The middleware either answers itself (\<open>Inl\<close>) or calls \<open>next()\<close> with \<open>req.user\<close> set.\<close>

definition authenticateToken :: "env \<Rightarrow> string option \<Rightarrow> response + claims" where
  "authenticateToken e authHeader =
     (case bearer_token authHeader of
        None \<Rightarrow> Inl (reply 401 (Message ''Token missing''))
      | Some token \<Rightarrow>
          (case jwt_verify e token (JWT_SECRET e) of
             None \<Rightarrow> Inl (reply 403 (Message ''Invalid token''))
           | Some user \<Rightarrow> Inr user))"

text \<open>\<open>socket.handshake.auth.token || socket.handshake.query.token\<close>; \<open>None\<close> when \<open>!token\<close>.\<close>

definition handshake_token :: "string option \<Rightarrow> string option \<Rightarrow> string option" where
  "handshake_token auth_token query_token =
     (let token = (case auth_token of
                     None \<Rightarrow> query_token
                   | Some a \<Rightarrow> if a = [] then query_token else Some a)
      in case token of None \<Rightarrow> None | Some tk \<Rightarrow> if tk = [] then None else Some tk)"

definition io_use :: "env \<Rightarrow> string option \<Rightarrow> string option \<Rightarrow> string + claims" where
  "io_use e auth_token query_token =
     (case handshake_token auth_token query_token of
        None \<Rightarrow> Inl ''Authentication error: Token missing''
      | Some token \<Rightarrow>
          (case jwt_verify e token (JWT_SECRET e) of
             None \<Rightarrow> Inl ''Authentication error: Invalid token''
           | Some user \<Rightarrow> Inr user))"

text \<open>
  A handshake that passes the middleware registers the socket; a disconnect removes it.
\<close>

definition connect ::
  "env \<Rightarrow> nat \<Rightarrow> string option \<Rightarrow> string option \<Rightarrow> server \<Rightarrow> string option \<times> server" where
  "connect e sid auth_token query_token s =
     (case io_use e auth_token query_token of
        Inl err \<Rightarrow> (Some err, s)
      | Inr user \<Rightarrow>
          (None, s\<lparr>sockets := sockets s @
                     [\<lparr>socket_id = sid, socket_user = user, received = []\<rparr>]\<rparr>))"

definition disconnect :: "nat \<Rightarrow> server \<Rightarrow> server" where
  "disconnect sid s = s\<lparr>sockets := filter (\<lambda>k. socket_id k \<noteq> sid) (sockets s)\<rparr>"

section \<open>Auth routes\<close>

record register_body =
  rb_name :: "string js"
  rb_email :: "string js"
  rb_password :: "string js"
  rb_profile_picture :: "string js"

text \<open>
  The lookup by email is written here without the driver's check of its parameter: an
  email with a NUL character is in no row that the statements have stored, and the INSERT
  that follows refuses it, so the answer is the same 500 with nothing stored.
\<close>

definition register :: "env \<Rightarrow> register_body \<Rightarrow> server \<Rightarrow> response \<times> server" where
  "register e b s =
     (if \<not> truthy (rb_name b) \<or> \<not> truthy (rb_email b) \<or> \<not> truthy (rb_password b)
      then (reply 400 (Message ''Name, email, and password are required''), s)
      else if length (select_users_by_email (js_str (rb_email b)) s) > 0
      then (reply 400 (Message ''Email already in use''), s)
      else
        (let hashedPassword = bcrypt_hash e (js_str (rb_password b));
             uid = uuidv4 e 0;
             role = ''user''
         in case run [insert_user
                        \<lparr>u_user_id = uid, u_name = js_str (rb_name b),
                          u_email = js_str (rb_email b), u_password_hash = hashedPassword,
                          u_profile_picture = or_null (rb_profile_picture b),
                          u_user_role = role, u_created_at = timestamp e,
                          u_updated_at = timestamp e\<rparr>] s of
              (Some err, s') \<Rightarrow> (internal_server_error, s')
            | (None, s') \<Rightarrow>
                (let ident = \<lparr>user_id = uid, email = js_str (rb_email b),
                               name = js_str (rb_name b), user_role = role\<rparr>
                 in (reply 201 (AuthBody ''Registration successful''
                                  (jwt_sign e ident (JWT_SECRET e)) ident), s'))))"

record login_body =
  lb_email :: "string js"
  lb_password :: "jsvalue js"

text \<open>
  \<open>await bcrypt.compare(data, hash)\<close>: the package throws when the data is not a string
  (\<open>data and hash must be strings\<close>, \<open>None\<close> here); on a string it is the comparison of
  the surroundings.
\<close>

definition bcrypt_compare_data :: "env \<Rightarrow> jsvalue js \<Rightarrow> string \<Rightarrow> bool option" where
  "bcrypt_compare_data e d h =
     (case d of Val (JString pw) \<Rightarrow> Some (bcrypt_compare e pw h) | _ \<Rightarrow> None)"

text \<open>
  The handler's \<open>try\<close> block: a lookup that the storage refuses and a comparison that throws
  both end in the \<open>catch\<close>, which answers 500.
\<close>

definition login :: "env \<Rightarrow> login_body \<Rightarrow> server \<Rightarrow> response \<times> server" where
  "login e b s =
     (if \<not> truthy (lb_email b) \<or> \<not> truthy_value (lb_password b)
      then (reply 400 (Message ''Email and password are required''), s)
      else
        (case pool_query [Some (js_str (lb_email b))]
                (select_users_by_email (js_str (lb_email b)) s) of
           Inl err \<Rightarrow> (internal_server_error, s)
         | Inr [] \<Rightarrow> (reply 400 (Message ''Invalid credentials''), s)
         | Inr (u # _) \<Rightarrow>
             (case bcrypt_compare_data e (lb_password b) (u_password_hash u) of
                None \<Rightarrow> (internal_server_error, s)
              | Some isPasswordValid \<Rightarrow>
                  if \<not> isPasswordValid
                  then (reply 400 (Message ''Invalid credentials''), s)
                  else
                    (let ident = \<lparr>user_id = u_user_id u, email = u_email u, name = u_name u,
                                   user_role = u_user_role u\<rparr>
                     in (reply 200 (AuthBody ''Login successful''
                                      (jwt_sign e ident (JWT_SECRET e)) ident), s)))))"

section \<open>Task routes\<close>

text \<open>
  The body of a task request. A subtask is an object with a \<open>title\<close>; \<open>b_subtasks\<close>
  lists those titles. \<open>b_assignees\<close> and \<open>b_labels\<close> list user and label ids. The three
  lists are empty when the body omits them.
\<close>

record task_body =
  b_title :: "string js"
  b_description :: "string js"
  b_due_date :: "string js"
  b_priority :: "string js"
  b_status :: "string js"
  b_project_id :: "string js"
  b_assignees :: "string list"
  b_labels :: "string list"
  b_subtasks :: "string js list"

text \<open>A destructuring default applies to \<open>undefined\<close> only.\<close>

fun default_to :: "'a \<Rightarrow> 'a js \<Rightarrow> 'a js" where
  "default_to d Undefined = Val d"
| "default_to d v = v"

text \<open>
  The INSERT statements of a task creation, in the order the handler awaits them: the task
  row, then one row for each subtask, each assignee and each label. The task takes the
  first identifier drawn, the child rows the following ones.
\<close>

definition task_inserts :: "env \<Rightarrow> claims \<Rightarrow> task_body \<Rightarrow> statement list" where
  "task_inserts e u b =
     (let priority = default_to ''medium'' (b_priority b);
          status = default_to ''pending'' (b_status b);
          task_id = uuidv4 e 0;
          ts = timestamp e;
          n1 = length (b_subtasks b);
          n2 = length (b_assignees b)
      in [insert_task task_id (js_str (b_title b)) (or_null (b_description b))
            (or_null (b_due_date b)) (sql_param priority) (sql_param status)
            (user_id u) (or_null (b_project_id b)) ts ts]
         @ map (\<lambda>(i, st). insert_subtask (uuidv4 e i) task_id (sql_param st) ts)
             (enumerate 1 (b_subtasks b))
         @ map (\<lambda>(i, a). insert_task_assignee (uuidv4 e i) task_id a ts)
             (enumerate (1 + n1) (b_assignees b))
         @ map (\<lambda>(i, l). insert_task_label (uuidv4 e i) task_id l)
             (enumerate (1 + n1 + n2) (b_labels b)))"

definition create_task :: "env \<Rightarrow> claims \<Rightarrow> task_body \<Rightarrow> server \<Rightarrow> response \<times> server" where
  "create_task e u b s =
     (let status = default_to ''pending'' (b_status b)
      in
        if \<not> truthy (b_title b) then (reply 400 (Message ''Title is required''), s)
        else if length (b_subtasks b) > 0 \<and> \<not> list_all truthy (b_subtasks b)
        then (reply 400 (Message ''Each subtask must have a title''), s)
        else
          (let task_id = uuidv4 e 0
           in case run (task_inserts e u b) s of
                (Some err, s') \<Rightarrow> (internal_server_error, s')
              | (None, s') \<Rightarrow>
                  (let taskCreatedPayload =
                         TaskCreatedPayload task_id (js_str (b_title b)) status
                           (or_null (b_due_date b)) (user_id u)
                   in (reply 201 (TaskCreatedBody ''Task created'' taskCreatedPayload),
                       io_emit ''task_created''
                         \<lparr>event = ''task_created'', data = taskCreatedPayload\<rparr> s'))))"

text \<open>
  The status filter is a query-string parameter: absent, or a string (an empty one is
  falsy).
\<close>

definition list_where :: "string \<Rightarrow> string option \<Rightarrow> where_token list" where
  "list_where uid status =
     [Cond (Creator_is uid), OR, Cond (Task_assigned_to uid)]
     @ (case status of
          None \<Rightarrow> []
        | Some v \<Rightarrow> if v = [] then [] else [AND, Cond (Status_is v)])"

text \<open>\<open>params\<close>: the caller's id, and the status when the filter is applied.\<close>

definition list_params :: "string \<Rightarrow> string option \<Rightarrow> string option list" where
  "list_params uid status =
     [Some uid] @ (case status of None \<Rightarrow> [] | Some v \<Rightarrow> if v = [] then [] else [Some v])"

definition list_tasks :: "claims \<Rightarrow> string option \<Rightarrow> server \<Rightarrow> response \<times> server" where
  "list_tasks u status s =
     (case pool_query (list_params (user_id u) status)
             (select_task_list (list_where (user_id u) status) s) of
        Inl err \<Rightarrow> (internal_server_error, s)
      | Inr rows \<Rightarrow> (reply 200 (TasksBody rows), s))"

text \<open>
  The task detail. The comments are ordered by \<open>created_at\<close>, a text column; the order of
  equal keys and the collation are the storage engine's, so the rows are kept here in
  table order.
\<close>

definition get_task :: "claims \<Rightarrow> string \<Rightarrow> server \<Rightarrow> response \<times> server" where
  "get_task u task_id s =
     (case pool_query [Some task_id] (select_task task_id s) of
        Inl err \<Rightarrow> (internal_server_error, s)
      | Inr [] \<Rightarrow> (reply 404 (Message ''Task not found''), s)
      | Inr (t # _) \<Rightarrow>
          (reply 200
             (TaskDetailBody t
                (map (\<lambda>r. (st_subtask_id r, st_title r, st_is_completed r))
                   (filter (\<lambda>r. st_task_id r = task_id) (subtasks s)))
                (map (\<lambda>r. (c_comment_id r, c_user_id r, c_comment_text r, c_created_at r))
                   (filter (\<lambda>r. c_task_id r = task_id) (task_comments s)))
                (concat (map (\<lambda>a. map (\<lambda>w. (u_user_id w, u_name w))
                                     (filter (\<lambda>w. u_user_id w = ta_user_id a) (users s)))
                           (filter (\<lambda>a. ta_task_id a = task_id) (task_assignees s))))
                (labels_of s task_id)), s))"

text \<open>The sparse field assembly of the update handler, in the order of the source.\<close>

definition update_fields :: "env \<Rightarrow> task_body \<Rightarrow> (task_column \<times> string option) list" where
  "update_fields e b =
     (if truthy (b_title b) then [(Col_title, sql_param (b_title b))] else [])
     @ (if b_description b \<noteq> Undefined then [(Col_description, sql_param (b_description b))] else [])
     @ (if b_due_date b \<noteq> Undefined then [(Col_due_date, sql_param (b_due_date b))] else [])
     @ (if truthy (b_priority b) then [(Col_priority, sql_param (b_priority b))] else [])
     @ (if truthy (b_status b) then [(Col_status, sql_param (b_status b))] else [])
     @ (if b_project_id b \<noteq> Undefined then [(Col_project_id, sql_param (b_project_id b))] else [])
     @ [(Col_updated_at, Some (timestamp e))]"

definition update_task ::
  "env \<Rightarrow> claims \<Rightarrow> string \<Rightarrow> task_body \<Rightarrow> server \<Rightarrow> response \<times> server" where
  "update_task e u task_id b s =
     (case pool_query [Some task_id] (select_task task_id s) of
        Inl err \<Rightarrow> (internal_server_error, s)
      | Inr [] \<Rightarrow> (reply 404 (Message ''Task not found''), s)
      | Inr (existing # _) \<Rightarrow>
          if t_creator_id existing \<noteq> user_id u
          then (reply 403
                  (Message ''Unauthorized: Only the task creator can update the task''), s)
          else
            (case update_tasks (update_fields e b) task_id s of
               Inl err \<Rightarrow> (internal_server_error, s)
             | Inr (s', rows) \<Rightarrow>
                 (let updatedFields = \<lparr>uf_status = b_status b, uf_priority = b_priority b,
                                        uf_due_date = b_due_date b\<rparr>;
                      payload = TaskUpdatedPayload task_id updatedFields (timestamp e)
                  in (reply 200 (TaskBody ''Task updated'' (at rows 0)),
                      io_emit ''task_updated''
                        \<lparr>event = ''task_updated'', data = payload\<rparr> s'))))"

definition delete_task :: "claims \<Rightarrow> string \<Rightarrow> server \<Rightarrow> response \<times> server" where
  "delete_task u task_id s =
     (case pool_query [Some task_id] (select_task task_id s) of
        Inl err \<Rightarrow> (internal_server_error, s)
      | Inr [] \<Rightarrow> (reply 404 (Message ''Task not found''), s)
      | Inr (existing # _) \<Rightarrow>
          if t_creator_id existing \<noteq> user_id u
          then (reply 403
                  (Message ''Unauthorized: Only the task creator can delete the task''), s)
          else
            (case run [delete_subtasks task_id, delete_task_comments task_id,
                       delete_task_assignees task_id, delete_task_labels task_id,
                       delete_task_row task_id] s of
               (Some err, s') \<Rightarrow> (internal_server_error, s')
             | (None, s') \<Rightarrow>
                 (reply 200 (Message ''Task deleted successfully''),
                  io_emit ''task_deleted''
                    \<lparr>event = ''task_deleted'', data = TaskDeletedPayload task_id\<rparr> s')))"

definition add_comment ::
  "env \<Rightarrow> claims \<Rightarrow> string \<Rightarrow> string js \<Rightarrow> server \<Rightarrow> response \<times> server" where
  "add_comment e u task_id comment_text s =
     (if \<not> truthy comment_text then (reply 400 (Message ''Comment text is required''), s)
      else
        (let comment_id = uuidv4 e 0
         in case run [insert_task_comment comment_id task_id (user_id u) (js_str comment_text)
                        (timestamp e)] s of
              (Some err, s') \<Rightarrow> (internal_server_error, s')
            | (None, s') \<Rightarrow>
                (let commentPayload =
                       CommentPayload comment_id task_id (user_id u) (js_str comment_text)
                         (timestamp e)
                 in (reply 201 (CommentBody ''Comment added'' commentPayload),
                     io_emit ''new_comment''
                       \<lparr>event = ''new_comment'', data = commentPayload\<rparr> s'))))"

section \<open>Notification routes\<close>

definition update_notification ::
  "claims \<Rightarrow> string \<Rightarrow> bool js \<Rightarrow> server \<Rightarrow> response \<times> server" where
  "update_notification u notification_id is_read s =
     (case pool_query [Some notification_id] (select_notification notification_id s) of
        Inl err \<Rightarrow> (internal_server_error, s)
      | Inr [] \<Rightarrow> (reply 404 (Message ''Notification not found''), s)
      | Inr (n # _) \<Rightarrow>
          if n_user_id n \<noteq> user_id u
          then (reply 403 (Message ''Unauthorized: Cannot update this notification''), s)
          else
            (case run [update_notification_is_read (sql_param is_read) notification_id] s of
               (Some err, s') \<Rightarrow> (internal_server_error, s')
             | (None, s') \<Rightarrow> (reply 200 (Message ''Notification updated''), s')))"

section \<open>The seed data of db.sql\<close>

definition seed_users :: "user list" where
  "seed_users =
     [\<lparr>u_user_id = ''user1'', u_name = ''Alice Johnson'', u_email = ''alice@example.com'',
       u_password_hash = ''hashed_password_alice'',
       u_profile_picture = Some ''https://picsum.photos/seed/alice/200'', u_user_role = ''user'',
       u_created_at = ''2023-10-01 10:00:00'', u_updated_at = ''2023-10-01 10:00:00''\<rparr>,
      \<lparr>u_user_id = ''user2'', u_name = ''Bob Smith'', u_email = ''bob@example.com'',
       u_password_hash = ''hashed_password_bob'',
       u_profile_picture = Some ''https://picsum.photos/seed/bob/200'', u_user_role = ''manager'',
       u_created_at = ''2023-10-01 10:05:00'', u_updated_at = ''2023-10-01 10:05:00''\<rparr>,
      \<lparr>u_user_id = ''user3'', u_name = ''Cindy Lee'', u_email = ''cindy@example.com'',
       u_password_hash = ''hashed_password_cindy'',
       u_profile_picture = Some ''https://picsum.photos/seed/cindy/200'', u_user_role = ''user'',
       u_created_at = ''2023-10-01 10:10:00'', u_updated_at = ''2023-10-01 10:10:00''\<rparr>]"

definition seed_projects :: "project list" where
  "seed_projects =
     [\<lparr>p_project_id = ''project1'', p_title = ''Website Redesign'',
       p_description = Some ''Revamp the company website'', p_due_date = Some ''2023-11-30'',
       p_creator_id = ''user2'', p_created_at = ''2023-10-01 11:00:00'',
       p_updated_at = ''2023-10-01 11:00:00''\<rparr>,
      \<lparr>p_project_id = ''project2'', p_title = ''Mobile App Launch'',
       p_description = Some ''Develop and launch the new mobile app'',
       p_due_date = Some ''2023-12-15'', p_creator_id = ''user2'',
       p_created_at = ''2023-10-01 11:05:00'', p_updated_at = ''2023-10-01 11:05:00''\<rparr>]"

definition seed_task1 :: task where
  "seed_task1 =
     \<lparr>t_task_id = ''task1'', t_title = ''Create wireframes'',
      t_description = Some ''Design initial wireframes for the website redesign'',
      t_due_date = Some ''2023-10-15'', t_priority = ''high'', t_status = ''in_progress'',
      t_creator_id = ''user1'', t_project_id = Some ''project1'',
      t_created_at = ''2023-10-02 09:00:00'', t_updated_at = ''2023-10-02 09:30:00''\<rparr>"

definition seed_task2 :: task where
  "seed_task2 =
     \<lparr>t_task_id = ''task2'', t_title = ''Set up project repository'',
      t_description = Some ''Initialize git repo for mobile app project'',
      t_due_date = Some ''2023-10-12'', t_priority = ''medium'', t_status = ''pending'',
      t_creator_id = ''user2'', t_project_id = Some ''project2'',
      t_created_at = ''2023-10-02 10:00:00'', t_updated_at = ''2023-10-02 10:10:00''\<rparr>"

definition seed_task3 :: task where
  "seed_task3 =
     \<lparr>t_task_id = ''task3'', t_title = ''Write unit tests'',
      t_description = Some ''Implement tests for new features'',
      t_due_date = Some ''2023-10-20'', t_priority = ''low'', t_status = ''pending'',
      t_creator_id = ''user3'', t_project_id = None,
      t_created_at = ''2023-10-02 10:30:00'', t_updated_at = ''2023-10-02 10:30:00''\<rparr>"

definition seed_task4 :: task where
  "seed_task4 =
     \<lparr>t_task_id = ''task4'', t_title = ''Deploy to staging'',
      t_description = Some ''Deploy current build to staging environment'',
      t_due_date = Some ''2023-10-18'', t_priority = ''medium'', t_status = ''in_progress'',
      t_creator_id = ''user2'', t_project_id = Some ''project1'',
      t_created_at = ''2023-10-02 11:00:00'', t_updated_at = ''2023-10-02 11:15:00''\<rparr>"

definition seed_subtasks :: "subtask list" where
  "seed_subtasks =
     [\<lparr>st_subtask_id = ''subtask1'', st_task_id = ''task1'', st_title = ''Sketch layout'',
       st_is_completed = False, st_created_at = ''2023-10-03 08:00:00'',
       st_updated_at = ''2023-10-03 08:00:00''\<rparr>,
      \<lparr>st_subtask_id = ''subtask2'', st_task_id = ''task1'', st_title = ''Review with team'',
       st_is_completed = False, st_created_at = ''2023-10-03 08:10:00'',
       st_updated_at = ''2023-10-03 08:10:00''\<rparr>,
      \<lparr>st_subtask_id = ''subtask3'', st_task_id = ''task2'', st_title = ''Set up CI/CD pipeline'',
       st_is_completed = False, st_created_at = ''2023-10-03 09:00:00'',
       st_updated_at = ''2023-10-03 09:00:00''\<rparr>,
      \<lparr>st_subtask_id = ''subtask4'', st_task_id = ''task4'',
       st_title = ''Prepare environment variables'', st_is_completed = True,
       st_created_at = ''2023-10-03 09:30:00'', st_updated_at = ''2023-10-03 09:45:00''\<rparr>]"

definition seed_comments :: "task_comment list" where
  "seed_comments =
     [\<lparr>c_comment_id = ''comment1'', c_task_id = ''task1'', c_user_id = ''user2'',
       c_comment_text = ''Looks good, please also consider mobile layout.'',
       c_created_at = ''2023-10-04 10:00:00''\<rparr>,
      \<lparr>c_comment_id = ''comment2'', c_task_id = ''task1'', c_user_id = ''user3'',
       c_comment_text = ''I can provide some input on colors.'',
       c_created_at = ''2023-10-04 10:05:00''\<rparr>,
      \<lparr>c_comment_id = ''comment3'', c_task_id = ''task2'', c_user_id = ''user1'',
       c_comment_text = ''Repo initialized. Ready for push.'',
       c_created_at = ''2023-10-04 11:00:00''\<rparr>,
      \<lparr>c_comment_id = ''comment4'', c_task_id = ''task4'', c_user_id = ''user2'',
       c_comment_text = ''Staging deployment scheduled for today.'',
       c_created_at = ''2023-10-04 11:30:00''\<rparr>]"

definition seed_assignees :: "task_assignee list" where
  "seed_assignees =
     [\<lparr>ta_record_id = ''ta1'', ta_task_id = ''task1'', ta_user_id = ''user2'',
       ta_assigned_at = ''2023-10-04 12:00:00''\<rparr>,
      \<lparr>ta_record_id = ''ta2'', ta_task_id = ''task1'', ta_user_id = ''user3'',
       ta_assigned_at = ''2023-10-04 12:05:00''\<rparr>,
      \<lparr>ta_record_id = ''ta3'', ta_task_id = ''task2'', ta_user_id = ''user1'',
       ta_assigned_at = ''2023-10-04 12:10:00''\<rparr>,
      \<lparr>ta_record_id = ''ta4'', ta_task_id = ''task3'', ta_user_id = ''user3'',
       ta_assigned_at = ''2023-10-04 12:15:00''\<rparr>,
      \<lparr>ta_record_id = ''ta5'', ta_task_id = ''task4'', ta_user_id = ''user1'',
       ta_assigned_at = ''2023-10-04 12:20:00''\<rparr>,
      \<lparr>ta_record_id = ''ta6'', ta_task_id = ''task4'', ta_user_id = ''user2'',
       ta_assigned_at = ''2023-10-04 12:25:00''\<rparr>]"

definition seed_labels :: "label list" where
  "seed_labels =
     [\<lparr>l_label_id = ''label1'', l_label_name = ''urgent''\<rparr>,
      \<lparr>l_label_id = ''label2'', l_label_name = ''feature''\<rparr>,
      \<lparr>l_label_id = ''label3'', l_label_name = ''bug''\<rparr>,
      \<lparr>l_label_id = ''label4'', l_label_name = ''research''\<rparr>]"

definition seed_task_labels :: "task_label list" where
  "seed_task_labels =
     [\<lparr>tl_record_id = ''tl1'', tl_task_id = ''task1'', tl_label_id = ''label1''\<rparr>,
      \<lparr>tl_record_id = ''tl2'', tl_task_id = ''task1'', tl_label_id = ''label4''\<rparr>,
      \<lparr>tl_record_id = ''tl3'', tl_task_id = ''task2'', tl_label_id = ''label2''\<rparr>,
      \<lparr>tl_record_id = ''tl4'', tl_task_id = ''task3'', tl_label_id = ''label3''\<rparr>,
      \<lparr>tl_record_id = ''tl5'', tl_task_id = ''task4'', tl_label_id = ''label2''\<rparr>,
      \<lparr>tl_record_id = ''tl6'', tl_task_id = ''task4'', tl_label_id = ''label1''\<rparr>]"

definition seed_notifications :: "notification list" where
  \<open>seed_notifications =
     [\<lparr>n_notification_id = ''notif1'', n_user_id = ''user2'', n_notification_type = ''assignment'',
       n_task_id = Some ''task1'',
       n_message = ''You have been assigned to task "Create wireframes".'',
       n_is_read = False, n_created_at = ''2023-10-05 08:00:00''\<rparr>,
      \<lparr>n_notification_id = ''notif2'', n_user_id = ''user3'', n_notification_type = ''comment'',
       n_task_id = Some ''task1'',
       n_message = ''A comment has been added to "Create wireframes".'',
       n_is_read = False, n_created_at = ''2023-10-05 08:05:00''\<rparr>,
      \<lparr>n_notification_id = ''notif3'', n_user_id = ''user1'',
       n_notification_type = ''status_change'', n_task_id = Some ''task2'',
       n_message = ''Task "Set up project repository" status updated.'',
       n_is_read = False, n_created_at = ''2023-10-05 08:10:00''\<rparr>,
      \<lparr>n_notification_id = ''notif4'', n_user_id = ''user2'', n_notification_type = ''assignment'',
       n_task_id = Some ''task4'',
       n_message = ''You have been assigned to task "Deploy to staging".'',
       n_is_read = True, n_created_at = ''2023-10-05 08:15:00''\<rparr>,
      \<lparr>n_notification_id = ''notif5'', n_user_id = ''user1'', n_notification_type = ''general'',
       n_task_id = None, n_message = ''System maintenance scheduled for tonight.'',
       n_is_read = False, n_created_at = ''2023-10-05 08:20:00''\<rparr>]\<close>

text \<open>The server after db.sql has been loaded, with no realtime connection yet.\<close>

definition seed :: server where
  "seed =
     \<lparr>users = seed_users, projects = seed_projects,
      tasks = [seed_task1, seed_task2, seed_task3, seed_task4],
      subtasks = seed_subtasks, task_comments = seed_comments,
      task_assignees = seed_assignees, labels = seed_labels, task_labels = seed_task_labels,
      notifications = seed_notifications, sockets = []\<rparr>"

section \<open>A concrete environment\<close>

text \<open>
  Fixed surroundings for evaluating the handlers: no secret configured, a clock, identifiers
  drawn in sequence, a hash that prefixes the password, and three tokens on the wire (one
  valid for Alice, one expired, one signed with another secret).
\<close>

definition alice :: claims where
  "alice = \<lparr>user_id = ''user1'', email = ''alice@example.com'', name = ''Alice Johnson'',
            user_role = ''user''\<rparr>"

definition bob :: claims where
  "bob = \<lparr>user_id = ''user2'', email = ''bob@example.com'', name = ''Bob Smith'',
          user_role = ''manager''\<rparr>"

definition cindy :: claims where
  "cindy = \<lparr>user_id = ''user3'', email = ''cindy@example.com'', name = ''Cindy Lee'',
            user_role = ''user''\<rparr>"

definition sample_decode :: "string \<Rightarrow> jwt option" where
  "sample_decode tk =
     (if tk = ''tok.alice'' then
        Some \<lparr>jwt_payload = alice, jwt_exp = 2000, jwt_key = ''your_jwt_secret''\<rparr>
      else if tk = ''tok.old'' then
        Some \<lparr>jwt_payload = alice, jwt_exp = 500, jwt_key = ''your_jwt_secret''\<rparr>
      else if tk = ''tok.forged'' then
        Some \<lparr>jwt_payload = alice, jwt_exp = 2000, jwt_key = ''guess''\<rparr>
      else None)"

definition sample_env :: env where
  "sample_env =
     \<lparr>env_JWT_SECRET = None, clock = 1000, timestamp = ''2023-10-06T09:00:00.000Z'',
      uuidv4 = (\<lambda>k. ''uuid-'' @ replicate k (CHR ''i'')),
      bcrypt_hash = (\<lambda>pw. ''$2b$10$'' @ pw),
      bcrypt_compare = (\<lambda>pw h. h = ''$2b$10$'' @ pw),
      jwt_decode = sample_decode\<rparr>"

text \<open>A body that supplies nothing.\<close>

definition empty_body :: task_body where
  "empty_body =
     \<lparr>b_title = Undefined, b_description = Undefined, b_due_date = Undefined,
      b_priority = Undefined, b_status = Undefined, b_project_id = Undefined,
      b_assignees = [], b_labels = [], b_subtasks = []\<rparr>"

text \<open>The seeded server with Bob connected over the realtime channel.\<close>

definition seed_online :: server where
  "seed_online = seed\<lparr>sockets := [\<lparr>socket_id = 7, socket_user = bob, received = []\<rparr>]\<rparr>"

text \<open>A registration request, and the seeded server after it has been served.\<close>

definition dana_body :: register_body where
  "dana_body =
     \<lparr>rb_name = Val ''Dana'', rb_email = Val ''dana@example.com'',
      rb_password = Val ''s3cret'', rb_profile_picture = Undefined\<rparr>"

definition dana :: user where
  "dana =
     \<lparr>u_user_id = ''uuid-'', u_name = ''Dana'', u_email = ''dana@example.com'',
      u_password_hash = ''$2b$10$s3cret'', u_profile_picture = None, u_user_role = ''user'',
      u_created_at = ''2023-10-06T09:00:00.000Z'', u_updated_at = ''2023-10-06T09:00:00.000Z''\<rparr>"

definition seed_with_dana :: server where
  "seed_with_dana = seed\<lparr>users := seed_users @ [dana]\<rparr>"

section \<open>Sequences of requests\<close>

text \<open>Registration requests served one after the other, each in its own surroundings.\<close>

fun register_all :: "(env \<times> register_body) list \<Rightarrow> server \<Rightarrow> server" where
  "register_all [] s = s"
| "register_all ((e, b) # rs) s = register_all rs (snd (register e b s))"

text \<open>Task creations and task updates served one after the other.\<close>

datatype task_request =
    Create env claims task_body
  | Update env claims string task_body

fun request_body :: "task_request \<Rightarrow> task_body" where
  "request_body (Create e u b) = b"
| "request_body (Update e u tid b) = b"

fun serve :: "task_request \<Rightarrow> server \<Rightarrow> server" where
  "serve (Create e u b) s = snd (create_task e u b s)"
| "serve (Update e u tid b) s = snd (update_task e u tid b s)"

fun serve_all :: "task_request list \<Rightarrow> server \<Rightarrow> server" where
  "serve_all [] s = s"
| "serve_all (q # qs) s = serve_all qs (serve q s)"

section \<open>The value sets of the data model\<close>

definition priorities :: "string set" where
  "priorities = {''low'', ''medium'', ''high''}"

definition statuses :: "string set" where
  "statuses = {''pending'', ''in_progress'', ''completed''}"

definition task_in_domain :: "task \<Rightarrow> bool" where
  "task_in_domain t \<longleftrightarrow> t_priority t \<in> priorities \<and> t_status t \<in> statuses"

text \<open>
  A request body whose \<open>priority\<close> and \<open>status\<close>, where it gives them a value, take it
  from those sets.
\<close>

definition body_in_domain :: "task_body \<Rightarrow> bool" where
  "body_in_domain b \<longleftrightarrow>
     (case b_priority b of Val v \<Rightarrow> v \<in> priorities | _ \<Rightarrow> True) \<and>
     (case b_status b of Val v \<Rightarrow> v \<in> statuses | _ \<Rightarrow> True)"

section \<open>Observations on the realtime channel\<close>

text \<open>
  Between \<open>s\<close> and \<open>s'\<close> every registered socket was sent exactly one more message: the
  envelope \<open>{event: ev, data: d}\<close> under the event name \<open>ev\<close>.
\<close>

definition delivered :: "string \<Rightarrow> event_data \<Rightarrow> server \<Rightarrow> server \<Rightarrow> bool" where
  "delivered ev d s s' \<longleftrightarrow>
     sockets s' =
       map (\<lambda>k. k\<lparr>received := received k @ [(ev, \<lparr>event = ev, data = d\<rparr>)]\<rparr>) (sockets s)"

text \<open>The \<open>updated_fields\<close> object carried by a \<open>task_updated\<close> envelope.\<close>

definition updated_fields_of :: "envelope \<Rightarrow> updated_fields option" where
  "updated_fields_of m =
     (case data m of TaskUpdatedPayload tid uf ts \<Rightarrow> Some uf | _ \<Rightarrow> None)"

section \<open>Facts about the statements\<close>

lemma rejected_Nil: "\<not> rejected []"
  by (simp add: rejected_def)

lemma rejected_Cons:
  "rejected (p # ps) \<longleftrightarrow> (case p of None \<Rightarrow> False | Some x \<Rightarrow> has_nul x) \<or> rejected ps"
  by (simp add: rejected_def)

lemma rejected_append: "rejected (ps @ qs) \<longleftrightarrow> rejected ps \<or> rejected qs"
  by (simp add: rejected_def)

lemmas rejected_simps = rejected_Nil rejected_Cons rejected_append

lemma pool_query_Inr: "pool_query ps rows = Inr r \<longleftrightarrow> \<not> rejected ps \<and> r = rows"
  by (auto simp: pool_query_def)

lemma pool_query_Inl: "pool_query ps rows = Inl err \<longleftrightarrow> rejected ps \<and> err = InvalidByteSequence"
  by (auto simp: pool_query_def)

lemma select_task_Cons:
  "select_task tid s = t # ts \<Longrightarrow> t \<in> set (tasks s) \<and> t_task_id t = tid"
  unfolding select_task_def by (auto simp: filter_eq_Cons_iff)

lemma select_task_Nil: "select_task tid s = [] \<longleftrightarrow> tid \<notin> set (map t_task_id (tasks s))"
  by (auto simp: select_task_def filter_empty_conv)

lemma run_sockets:
  assumes "\<forall>q \<in> set qs. \<forall>s s'. q s = Inr s' \<longrightarrow> sockets s' = sockets s"
    and "run qs s = (r, s')"
  shows "sockets s' = sockets s"
  using assms
proof (induction qs arbitrary: s)
  case Nil
  then show ?case by simp
next
  case (Cons q qs)
  show ?case
  proof (cases "q s")
    case (Inl err)
    with Cons.prems(2) show ?thesis by simp
  next
    case (Inr s1)
    have "sockets s1 = sockets s"
      using Cons.prems(1) Inr by simp
    moreover have "run qs s1 = (r, s')"
      using Cons.prems(2) Inr by simp
    then have "sockets s' = sockets s1"
      using Cons.IH [of s1] Cons.prems(1) by simp
    ultimately show ?thesis by simp
  qed
qed

lemma run_invariant:
  assumes "\<forall>q \<in> set qs. \<forall>s s'. P s \<longrightarrow> q s = Inr s' \<longrightarrow> P s'"
    and "P s" and "run qs s = (r, s')"
  shows "P s'"
  using assms
proof (induction qs arbitrary: s)
  case Nil
  then show ?case by simp
next
  case (Cons q qs)
  have step: "\<forall>a a'. P a \<longrightarrow> q a = Inr a' \<longrightarrow> P a'"
    using Cons.prems(1) by (meson list.set_intros(1))
  have rest: "\<forall>q \<in> set qs. \<forall>s s'. P s \<longrightarrow> q s = Inr s' \<longrightarrow> P s'"
    using Cons.prems(1) by (meson list.set_intros(2))
  show ?case
  proof (cases "q s")
    case (Inl err)
    then have "s' = s" using Cons.prems(3) by simp
    then show ?thesis using Cons.prems(2) by simp
  next
    case (Inr s1)
    have "P s1"
      using step Cons.prems(2) Inr by blast
    moreover have "run qs s1 = (r, s')"
      using Cons.prems(3) Inr by simp
    ultimately show ?thesis
      using Cons.IH [OF rest] by blast
  qed
qed

lemma insert_sockets:
  "insert_user w s = Inr s' \<Longrightarrow> sockets s' = sockets s"
  "insert_task a1 a2 a3 a4 a5 a6 a7 a8 a9 a10 s = Inr s' \<Longrightarrow> sockets s' = sockets s"
  "insert_subtask b1 b2 b3 b4 s = Inr s' \<Longrightarrow> sockets s' = sockets s"
  "insert_task_assignee c1 c2 c3 c4 s = Inr s' \<Longrightarrow> sockets s' = sockets s"
  "insert_task_label d1 d2 d3 s = Inr s' \<Longrightarrow> sockets s' = sockets s"
  "insert_task_comment e1 e2 e3 e4 e5 s = Inr s' \<Longrightarrow> sockets s' = sockets s"
  by (auto simp: insert_user_def insert_task_def insert_subtask_def insert_task_assignee_def
      insert_task_label_def insert_task_comment_def split: if_splits option.splits)

lemma delete_sockets:
  "delete_subtasks tid s = Inr s' \<Longrightarrow> sockets s' = sockets s"
  "delete_task_comments tid s = Inr s' \<Longrightarrow> sockets s' = sockets s"
  "delete_task_assignees tid s = Inr s' \<Longrightarrow> sockets s' = sockets s"
  "delete_task_labels tid s = Inr s' \<Longrightarrow> sockets s' = sockets s"
  "delete_task_row tid s = Inr s' \<Longrightarrow> sockets s' = sockets s"
  by (auto simp: delete_subtasks_def delete_task_comments_def delete_task_assignees_def
      delete_task_labels_def delete_task_row_def split: if_splits)

lemma update_tasks_sockets: "update_tasks cvs tid s = Inr (s', rows) \<Longrightarrow> sockets s' = sockets s"
  by (auto simp: update_tasks_def split: sum.splits if_splits)

lemma io_emit_delivered:
  "sockets s1 = sockets s \<Longrightarrow> delivered ev d s (io_emit ev \<lparr>event = ev, data = d\<rparr> s1)"
  by (simp add: delivered_def io_emit_def)

lemma child_insert_tasks:
  "insert_subtask b1 b2 b3 b4 s = Inr s' \<Longrightarrow> tasks s' = tasks s"
  "insert_task_assignee c1 c2 c3 c4 s = Inr s' \<Longrightarrow> tasks s' = tasks s"
  "insert_task_label d1 d2 d3 s = Inr s' \<Longrightarrow> tasks s' = tasks s"
  by (auto simp: insert_subtask_def insert_task_assignee_def insert_task_label_def
      split: if_splits option.splits)

text \<open>The assembled SET list, applied to a row.\<close>

lemma assign_title:
  "assign ((if truthy v then [(Col_title, sql_param v)] else []) @ rest) t =
     assign rest (t\<lparr>t_title := if truthy v then js_str v else t_title t\<rparr>)"
  by (cases v) auto

lemma assign_priority:
  "assign ((if truthy v then [(Col_priority, sql_param v)] else []) @ rest) t =
     assign rest (t\<lparr>t_priority := if truthy v then js_str v else t_priority t\<rparr>)"
  by (cases v) auto

lemma assign_status:
  "assign ((if truthy v then [(Col_status, sql_param v)] else []) @ rest) t =
     assign rest (t\<lparr>t_status := if truthy v then js_str v else t_status t\<rparr>)"
  by (cases v) auto

lemma assign_description:
  "assign ((if v \<noteq> Undefined then [(Col_description, sql_param v)] else []) @ rest) t =
     assign rest (t\<lparr>t_description := if v \<noteq> Undefined then sql_param v else t_description t\<rparr>)"
  by (cases v) auto

lemma assign_due_date:
  "assign ((if v \<noteq> Undefined then [(Col_due_date, sql_param v)] else []) @ rest) t =
     assign rest (t\<lparr>t_due_date := if v \<noteq> Undefined then sql_param v else t_due_date t\<rparr>)"
  by (cases v) auto

lemma assign_project_id:
  "assign ((if v \<noteq> Undefined then [(Col_project_id, sql_param v)] else []) @ rest) t =
     assign rest (t\<lparr>t_project_id := if v \<noteq> Undefined then sql_param v else t_project_id t\<rparr>)"
  by (cases v) auto

lemma assign_update_fields:
  "assign (update_fields e b) t =
     Inr (t\<lparr>t_title := if truthy (b_title b) then js_str (b_title b) else t_title t,
            t_description := if b_description b \<noteq> Undefined then sql_param (b_description b)
                             else t_description t,
            t_due_date := if b_due_date b \<noteq> Undefined then sql_param (b_due_date b)
                          else t_due_date t,
            t_priority := if truthy (b_priority b) then js_str (b_priority b) else t_priority t,
            t_status := if truthy (b_status b) then js_str (b_status b) else t_status t,
            t_project_id := if b_project_id b \<noteq> Undefined then sql_param (b_project_id b)
                            else t_project_id t,
            t_updated_at := timestamp e\<rparr>)"
  unfolding update_fields_def
  by (simp only: assign_title assign_description assign_due_date assign_priority assign_status
      assign_project_id) simp

lemma update_rows_map:
  assumes "\<forall>t. assign cvs t = Inr (f t)" and "update_rows cvs tid ps ts = Inr ts'"
  shows "ts' = map (\<lambda>t. if t_task_id t = tid then f t else t) ts"
  using assms(2)
proof (induction ts arbitrary: ts')
  case Nil
  then show ?case by simp
next
  case (Cons t ts)
  then show ?case
    using assms(1) by (auto split: if_splits sum.splits)
qed

lemma update_rows_refused:
  assumes "\<forall>t. assign cvs t = Inr (f t)"
  shows "isl (update_rows cvs tid ps ts) \<longleftrightarrow>
           (\<exists>x \<in> set ts. t_task_id x = tid \<and> project_fk_broken ps x (f x))"
proof (induction ts)
  case Nil
  then show ?case by simp
next
  case (Cons t ts)
  then show ?case
    using assms by (cases "update_rows cvs tid ps ts") auto
qed

text \<open>
  When the storage refuses the UPDATE of a task: a text parameter holds a NUL character,
  or the new \<open>project_id\<close> of a row refers to no project.
\<close>

lemma update_tasks_refused:
  "isl (update_tasks (update_fields e b) tid s) \<longleftrightarrow>
     rejected (map snd (update_fields e b) @ [Some tid]) \<or>
     (\<exists>x \<in> set (tasks s). t_task_id x = tid \<and> b_project_id b \<noteq> Undefined \<and>
        project_fk_broken (projects s) x (x\<lparr>t_project_id := sql_param (b_project_id b)\<rparr>))"
proof (cases "rejected (map snd (update_fields e b) @ [Some tid])")
  case True
  then show ?thesis by (simp add: update_tasks_def)
next
  case False
  have "isl (update_tasks (update_fields e b) tid s) \<longleftrightarrow>
      isl (update_rows (update_fields e b) tid (projects s) (tasks s))"
    using False by (simp add: update_tasks_def split: sum.splits)
  also have "\<dots> \<longleftrightarrow> (\<exists>x \<in> set (tasks s). t_task_id x = tid \<and> b_project_id b \<noteq> Undefined \<and>
        project_fk_broken (projects s) x (x\<lparr>t_project_id := sql_param (b_project_id b)\<rparr>))"
    unfolding update_rows_refused [OF allI [OF assign_update_fields]]
    by (auto simp: project_fk_broken_def)
  finally show ?thesis using False by simp
qed

lemma run_Cons_None:
  "run (q # qs) s = (None, s') \<longleftrightarrow> (\<exists>s0. q s = Inr s0 \<and> run qs s0 = (None, s'))"
  by (cases "q s") auto

text \<open>The five DELETE statements of a task deletion, on a task that exists.\<close>

lemma run_deletes:
  assumes "\<not> rejected [Some tid]" and "tid \<in> set (map t_task_id (tasks s))"
  shows "run [delete_subtasks tid, delete_task_comments tid, delete_task_assignees tid,
              delete_task_labels tid, delete_task_row tid] s =
           (if Some tid \<in> set (map n_task_id (notifications s)) then Some ForeignKeyViolation
            else None,
            if Some tid \<in> set (map n_task_id (notifications s))
            then s\<lparr>subtasks := filter (\<lambda>r. st_task_id r \<noteq> tid) (subtasks s),
                   task_comments := filter (\<lambda>r. c_task_id r \<noteq> tid) (task_comments s),
                   task_assignees := filter (\<lambda>r. ta_task_id r \<noteq> tid) (task_assignees s),
                   task_labels := filter (\<lambda>r. tl_task_id r \<noteq> tid) (task_labels s)\<rparr>
            else s\<lparr>subtasks := filter (\<lambda>r. st_task_id r \<noteq> tid) (subtasks s),
                   task_comments := filter (\<lambda>r. c_task_id r \<noteq> tid) (task_comments s),
                   task_assignees := filter (\<lambda>r. ta_task_id r \<noteq> tid) (task_assignees s),
                   task_labels := filter (\<lambda>r. tl_task_id r \<noteq> tid) (task_labels s),
                   tasks := filter (\<lambda>r. t_task_id r \<noteq> tid) (tasks s)\<rparr>)"
  using assms
  by (auto simp: delete_subtasks_def delete_task_comments_def delete_task_assignees_def
      delete_task_labels_def delete_task_row_def task_referenced_def)

section \<open>Ownership guard\<close>

lemma seed_select_task1: "select_task ''task1'' seed = [seed_task1]"
  by (simp add: select_task_def seed_def seed_task1_def seed_task2_def seed_task3_def
      seed_task4_def)

lemma seed_select_task3: "select_task ''task3'' seed = [seed_task3]"
  by (simp add: select_task_def seed_def seed_task1_def seed_task2_def seed_task3_def
      seed_task4_def)

lemma seed_select_notif1: "select_notification ''notif1'' seed = [hd seed_notifications]"
  by (simp add: select_notification_def seed_def seed_notifications_def)

lemma update_task_guard:
  assumes "pool_query [Some tid] (select_task tid s) = Inr (t # ts)"
  shows "(fst (update_task e u tid b s) =
            reply 403 (Message ''Unauthorized: Only the task creator can update the task'')
          \<longleftrightarrow> t_creator_id t \<noteq> user_id u)
       \<and> (t_creator_id t \<noteq> user_id u \<longrightarrow> snd (update_task e u tid b s) = s)
       \<and> (t_creator_id t = user_id u \<longrightarrow>
            (case update_tasks (update_fields e b) tid s of
               Inl err \<Rightarrow> update_task e u tid b s = (reply 500 (Message ''Internal server error''), s)
             | Inr (s1, rows) \<Rightarrow>
                 update_task e u tid b s =
                   (reply 200 (TaskBody ''Task updated'' (at rows 0)),
                    io_emit ''task_updated''
                      \<lparr>event = ''task_updated'',
                        data = TaskUpdatedPayload tid
                                 \<lparr>uf_status = b_status b, uf_priority = b_priority b,
                                   uf_due_date = b_due_date b\<rparr> (timestamp e)\<rparr> s1)))"
  using assms
  by (auto simp: update_task_def reply_def internal_server_error_def Let_def
      split: sum.splits prod.splits)

lemma delete_task_guard:
  assumes "pool_query [Some tid] (select_task tid s) = Inr (t # ts)"
  shows "(fst (delete_task u tid s) =
            reply 403 (Message ''Unauthorized: Only the task creator can delete the task'')
          \<longleftrightarrow> t_creator_id t \<noteq> user_id u)
       \<and> (t_creator_id t \<noteq> user_id u \<longrightarrow> snd (delete_task u tid s) = s)"
  using assms
  by (auto simp: delete_task_def reply_def internal_server_error_def Let_def
      split: sum.splits prod.splits option.splits)

text \<open>
  The deletion by the creator of a task that no notification refers to: every statement
  is accepted, the child rows and the task row are gone, and the event is sent.
\<close>

lemma delete_task_accepted:
  assumes "pool_query [Some tid] (select_task tid s) = Inr (t # ts)"
    and "t_creator_id t = user_id u"
    and "Some tid \<notin> set (map n_task_id (notifications s))"
  shows "delete_task u tid s =
           (reply 200 (Message ''Task deleted successfully''),
            io_emit ''task_deleted'' \<lparr>event = ''task_deleted'', data = TaskDeletedPayload tid\<rparr>
              (s\<lparr>subtasks := filter (\<lambda>r. st_task_id r \<noteq> tid) (subtasks s),
                 task_comments := filter (\<lambda>r. c_task_id r \<noteq> tid) (task_comments s),
                 task_assignees := filter (\<lambda>r. ta_task_id r \<noteq> tid) (task_assignees s),
                 task_labels := filter (\<lambda>r. tl_task_id r \<noteq> tid) (task_labels s),
                 tasks := filter (\<lambda>r. t_task_id r \<noteq> tid) (tasks s)\<rparr>))"
proof -
  have n: "\<not> rejected [Some tid]" and sel: "select_task tid s = t # ts"
    using assms(1) by (simp_all add: pool_query_Inr)
  show ?thesis
    using assms(2,3) n sel
    by (auto simp: delete_task_def pool_query_def delete_subtasks_def delete_task_comments_def
        delete_task_assignees_def delete_task_labels_def delete_task_row_def
        task_referenced_def)
qed

lemma update_notification_guard:
  assumes "pool_query [Some nid] (select_notification nid s) = Inr (n # ns)"
  shows "(fst (update_notification u nid v s) =
            reply 403 (Message ''Unauthorized: Cannot update this notification'')
          \<longleftrightarrow> n_user_id n \<noteq> user_id u)
       \<and> (n_user_id n \<noteq> user_id u \<longrightarrow> snd (update_notification u nid v s) = s)
       \<and> (n_user_id n = user_id u \<longrightarrow>
            (case sql_param v of
               None \<Rightarrow>
                 update_notification u nid v s =
                   (reply 500 (Message ''Internal server error''), s)
             | Some r \<Rightarrow>
                 update_notification u nid v s =
                   (reply 200 (Message ''Notification updated''),
                    s\<lparr>notifications :=
                        map (\<lambda>n. if n_notification_id n = nid then n\<lparr>n_is_read := r\<rparr> else n)
                          (notifications s)\<rparr>)))"
proof -
  have n: "\<not> rejected [Some nid]" and sel: "select_notification nid s = n # ns"
    using assms by (simp_all add: pool_query_Inr)
  have mem: "nid \<in> set (map n_notification_id (notifications s))"
    using sel unfolding select_notification_def
    by (metis (mono_tags, lifting) filter_empty_conv image_eqI list.distinct(1) list.set_map)
  show ?thesis
    using n sel mem
    by (auto simp: update_notification_def pool_query_def update_notification_is_read_def
        reply_def internal_server_error_def split: option.splits)
qed

text \<open>
  C1, as stated, fails: an update or delete by the owner does not always succeed. Alice
  created \<open>task1\<close> of the seed data; her update that names a project which does not exist
  is rejected by the foreign key of \<open>tasks.project_id\<close> and answered with 500.
\<close>

theorem owner_update_can_fail:
  "select_task ''task1'' seed = [seed_task1] \<and> t_creator_id seed_task1 = user_id alice \<and>
   update_task sample_env alice ''task1'' (empty_body\<lparr>b_project_id := Val ''nope''\<rparr>) seed
     = (reply 500 (Message ''Internal server error''), seed)"
  by code_simp

text \<open>
  C1, amended: for every Task update or delete attempt and every Notification update
  attempt on an existing resource (the handler's lookup returns it), the handler answers
  403 Forbidden iff the identity's \<open>user_id\<close> differs from the owner field (\<open>creator_id\<close>
  of the task, \<open>user_id\<close> of the notification), and then the server state is unchanged.
  When the identity is the owner the guard lets the operation through. A task update then
  answers 200, stores the row and publishes the event when the storage accepts the UPDATE,
  and answers 500 with nothing changed when the storage refuses it. A notification update
  answers 200 and stores \<open>is_read\<close> when the body gives it a boolean, and answers 500 with
  nothing changed when it does not. A task delete answers 200, removes the child rows and
  the task row and publishes the event when no notification refers to the task.
\<close>

theorem owner_guard:
  "(pool_query [Some tid] (select_task tid s) = Inr (t # ts) \<longrightarrow>
      (fst (update_task e u tid b s) =
         reply 403 (Message ''Unauthorized: Only the task creator can update the task'')
       \<longleftrightarrow> t_creator_id t \<noteq> user_id u) \<and>
      (fst (delete_task u tid s) =
         reply 403 (Message ''Unauthorized: Only the task creator can delete the task'')
       \<longleftrightarrow> t_creator_id t \<noteq> user_id u) \<and>
      (t_creator_id t \<noteq> user_id u \<longrightarrow>
         snd (update_task e u tid b s) = s \<and> snd (delete_task u tid s) = s) \<and>
      (t_creator_id t = user_id u \<longrightarrow>
         (case update_tasks (update_fields e b) tid s of
            Inl err \<Rightarrow>
              update_task e u tid b s = (reply 500 (Message ''Internal server error''), s)
          | Inr (s1, rows) \<Rightarrow>
              update_task e u tid b s =
                (reply 200 (TaskBody ''Task updated'' (at rows 0)),
                 io_emit ''task_updated''
                   \<lparr>event = ''task_updated'',
                     data = TaskUpdatedPayload tid
                              \<lparr>uf_status = b_status b, uf_priority = b_priority b,
                                uf_due_date = b_due_date b\<rparr> (timestamp e)\<rparr> s1)) \<and>
         (Some tid \<notin> set (map n_task_id (notifications s)) \<longrightarrow>
            delete_task u tid s =
              (reply 200 (Message ''Task deleted successfully''),
               io_emit ''task_deleted''
                 \<lparr>event = ''task_deleted'', data = TaskDeletedPayload tid\<rparr>
                 (s\<lparr>subtasks := filter (\<lambda>r. st_task_id r \<noteq> tid) (subtasks s),
                    task_comments := filter (\<lambda>r. c_task_id r \<noteq> tid) (task_comments s),
                    task_assignees := filter (\<lambda>r. ta_task_id r \<noteq> tid) (task_assignees s),
                    task_labels := filter (\<lambda>r. tl_task_id r \<noteq> tid) (task_labels s),
                    tasks := filter (\<lambda>r. t_task_id r \<noteq> tid) (tasks s)\<rparr>))))) \<and>
   (pool_query [Some nid] (select_notification nid s) = Inr (n # ns) \<longrightarrow>
      (fst (update_notification u nid v s) =
         reply 403 (Message ''Unauthorized: Cannot update this notification'')
       \<longleftrightarrow> n_user_id n \<noteq> user_id u) \<and>
      (n_user_id n \<noteq> user_id u \<longrightarrow> snd (update_notification u nid v s) = s) \<and>
      (n_user_id n = user_id u \<longrightarrow>
         (case sql_param v of
            None \<Rightarrow>
              update_notification u nid v s = (reply 500 (Message ''Internal server error''), s)
          | Some r \<Rightarrow>
              update_notification u nid v s =
                (reply 200 (Message ''Notification updated''),
                 s\<lparr>notifications :=
                     map (\<lambda>n. if n_notification_id n = nid then n\<lparr>n_is_read := r\<rparr> else n)
                       (notifications s)\<rparr>))))"
proof (intro conjI impI)
  assume a: "pool_query [Some tid] (select_task tid s) = Inr (t # ts)"
  note ut = update_task_guard [OF a, of e u b] and dt = delete_task_guard [OF a, of u]
  show "fst (update_task e u tid b s) =
          reply 403 (Message ''Unauthorized: Only the task creator can update the task'')
        \<longleftrightarrow> t_creator_id t \<noteq> user_id u"
    using ut by blast
  show "fst (delete_task u tid s) =
          reply 403 (Message ''Unauthorized: Only the task creator can delete the task'')
        \<longleftrightarrow> t_creator_id t \<noteq> user_id u"
    using dt by blast
  show "snd (update_task e u tid b s) = s" if "t_creator_id t \<noteq> user_id u"
    using ut that by blast
  show "snd (delete_task u tid s) = s" if "t_creator_id t \<noteq> user_id u"
    using dt that by blast
  show "case update_tasks (update_fields e b) tid s of
            Inl err \<Rightarrow>
              update_task e u tid b s = (reply 500 (Message ''Internal server error''), s)
          | Inr (s1, rows) \<Rightarrow>
              update_task e u tid b s =
                (reply 200 (TaskBody ''Task updated'' (at rows 0)),
                 io_emit ''task_updated''
                   \<lparr>event = ''task_updated'',
                     data = TaskUpdatedPayload tid
                              \<lparr>uf_status = b_status b, uf_priority = b_priority b,
                                uf_due_date = b_due_date b\<rparr> (timestamp e)\<rparr> s1)"
    if "t_creator_id t = user_id u"
    using ut that by blast
  show "delete_task u tid s =
              (reply 200 (Message ''Task deleted successfully''),
               io_emit ''task_deleted''
                 \<lparr>event = ''task_deleted'', data = TaskDeletedPayload tid\<rparr>
                 (s\<lparr>subtasks := filter (\<lambda>r. st_task_id r \<noteq> tid) (subtasks s),
                    task_comments := filter (\<lambda>r. c_task_id r \<noteq> tid) (task_comments s),
                    task_assignees := filter (\<lambda>r. ta_task_id r \<noteq> tid) (task_assignees s),
                    task_labels := filter (\<lambda>r. tl_task_id r \<noteq> tid) (task_labels s),
                    tasks := filter (\<lambda>r. t_task_id r \<noteq> tid) (tasks s)\<rparr>))"
    if "t_creator_id t = user_id u" "Some tid \<notin> set (map n_task_id (notifications s))"
    using delete_task_accepted [OF a that] .
next
  assume a: "pool_query [Some nid] (select_notification nid s) = Inr (n # ns)"
  note un = update_notification_guard [OF a, of u v]
  show "fst (update_notification u nid v s) =
          reply 403 (Message ''Unauthorized: Cannot update this notification'')
        \<longleftrightarrow> n_user_id n \<noteq> user_id u"
    using un by blast
  show "snd (update_notification u nid v s) = s" if "n_user_id n \<noteq> user_id u"
    using un that by blast
  show "case sql_param v of
            None \<Rightarrow>
              update_notification u nid v s = (reply 500 (Message ''Internal server error''), s)
          | Some r \<Rightarrow>
              update_notification u nid v s =
                (reply 200 (Message ''Notification updated''),
                 s\<lparr>notifications :=
                     map (\<lambda>n. if n_notification_id n = nid then n\<lparr>n_is_read := r\<rparr> else n)
                       (notifications s)\<rparr>)"
    if "n_user_id n = user_id u"
    using un that by blast
qed

text \<open>
  The guard on the seed data. Bob did not create \<open>task1\<close>: his update and his delete are
  refused and change nothing. Alice created it: her update is stored. Cindy created
  \<open>task3\<close>, which no notification refers to: her delete removes it. Bob is the recipient of
  \<open>notif1\<close>: marking it read is stored, a body without \<open>is_read\<close> is answered 500, and
  Alice's attempt is refused.
\<close>

theorem owner_guard_witness:
  "update_task sample_env bob ''task1'' (empty_body\<lparr>b_status := Val ''completed''\<rparr>) seed =
     (reply 403 (Message ''Unauthorized: Only the task creator can update the task''), seed) \<and>
   delete_task bob ''task1'' seed =
     (reply 403 (Message ''Unauthorized: Only the task creator can delete the task''), seed) \<and>
   fst (update_task sample_env alice ''task1'' (empty_body\<lparr>b_status := Val ''completed''\<rparr>) seed) =
     reply 200 (TaskBody ''Task updated''
       (Some (seed_task1\<lparr>t_status := ''completed'',
                          t_updated_at := ''2023-10-06T09:00:00.000Z''\<rparr>))) \<and>
   fst (delete_task cindy ''task3'' seed) = reply 200 (Message ''Task deleted successfully'') \<and>
   select_task ''task3'' (snd (delete_task cindy ''task3'' seed)) = [] \<and>
   fst (update_notification bob ''notif1'' (Val True) seed) =
     reply 200 (Message ''Notification updated'') \<and>
   update_notification bob ''notif1'' Undefined seed =
     (reply 500 (Message ''Internal server error''), seed) \<and>
   update_notification alice ''notif1'' (Val True) seed =
     (reply 403 (Message ''Unauthorized: Cannot update this notification''), seed)"
proof -
  let ?b = "empty_body\<lparr>b_status := Val ''completed''\<rparr>"
  have q1: "pool_query [Some ''task1''] (select_task ''task1'' seed) = Inr (seed_task1 # [])"
    by (simp add: seed_select_task1 pool_query_def rejected_simps has_nul_def)
  have q3: "pool_query [Some ''task3''] (select_task ''task3'' seed) = Inr (seed_task3 # [])"
    by (simp add: seed_select_task3 pool_query_def rejected_simps has_nul_def)
  have qn: "pool_query [Some ''notif1''] (select_notification ''notif1'' seed) =
      Inr (hd seed_notifications # [])"
    by (simp add: seed_select_notif1 pool_query_def rejected_simps has_nul_def)
  have own: "t_creator_id seed_task1 \<noteq> user_id bob" "t_creator_id seed_task1 = user_id alice"
    "t_creator_id seed_task3 = user_id cindy"
    "n_user_id (hd seed_notifications) = user_id bob"
    "n_user_id (hd seed_notifications) \<noteq> user_id alice"
    by (simp_all add: seed_task1_def seed_task3_def seed_notifications_def bob_def alice_def
        cindy_def)
  have free: "Some ''task3'' \<notin> set (map n_task_id (notifications seed))"
    by (simp add: seed_def seed_notifications_def)
  have upd: "update_tasks (update_fields sample_env ?b) ''task1'' seed =
      Inr (seed\<lparr>tasks := [seed_task1\<lparr>t_status := ''completed'',
                                         t_updated_at := ''2023-10-06T09:00:00.000Z''\<rparr>,
                             seed_task2, seed_task3, seed_task4]\<rparr>,
           [seed_task1\<lparr>t_status := ''completed'',
                        t_updated_at := ''2023-10-06T09:00:00.000Z''\<rparr>])"
    by code_simp
  note t_bob = owner_guard [where tid = "''task1''" and s = seed and t = seed_task1
      and ts = "[]" and e = sample_env and u = bob and b = ?b, THEN conjunct1, THEN mp, OF q1]
  note t_alice = owner_guard [where tid = "''task1''" and s = seed and t = seed_task1
      and ts = "[]" and e = sample_env and u = alice and b = ?b, THEN conjunct1, THEN mp, OF q1]
  note t_cindy = owner_guard [where tid = "''task3''" and s = seed and t = seed_task3
      and ts = "[]" and e = sample_env and u = cindy and b = ?b, THEN conjunct1, THEN mp, OF q3]
  note n_bob = owner_guard [where s = seed and u = bob and nid = "''notif1''"
      and n = "hd seed_notifications" and ns = "[]" and v = "Val True",
      THEN conjunct2, THEN mp, OF qn]
  note n_bob' = owner_guard [where s = seed and u = bob and nid = "''notif1''"
      and n = "hd seed_notifications" and ns = "[]" and v = Undefined,
      THEN conjunct2, THEN mp, OF qn]
  note n_alice = owner_guard [where s = seed and u = alice and nid = "''notif1''"
      and n = "hd seed_notifications" and ns = "[]" and v = "Val True",
      THEN conjunct2, THEN mp, OF qn]
  have "fst (update_task sample_env bob ''task1'' ?b seed) =
      reply 403 (Message ''Unauthorized: Only the task creator can update the task'')"
    using t_bob [THEN conjunct1] own(1) by simp
  moreover have "snd (update_task sample_env bob ''task1'' ?b seed) = seed"
    using t_bob [THEN conjunct2, THEN conjunct2, THEN conjunct1] own(1) by simp
  ultimately have 1: "update_task sample_env bob ''task1'' ?b seed =
     (reply 403 (Message ''Unauthorized: Only the task creator can update the task''), seed)"
    by (simp add: prod_eq_iff)
  have "fst (delete_task bob ''task1'' seed) =
      reply 403 (Message ''Unauthorized: Only the task creator can delete the task'')"
    using t_bob [THEN conjunct2, THEN conjunct1] own(1) by simp
  moreover have "snd (delete_task bob ''task1'' seed) = seed"
    using t_bob [THEN conjunct2, THEN conjunct2, THEN conjunct1] own(1) by simp
  ultimately have 2: "delete_task bob ''task1'' seed =
     (reply 403 (Message ''Unauthorized: Only the task creator can delete the task''), seed)"
    by (simp add: prod_eq_iff)
  have 3: "fst (update_task sample_env alice ''task1'' ?b seed) =
     reply 200 (TaskBody ''Task updated''
       (Some (seed_task1\<lparr>t_status := ''completed'',
                          t_updated_at := ''2023-10-06T09:00:00.000Z''\<rparr>)))"
    using t_alice [THEN conjunct2, THEN conjunct2, THEN conjunct2, THEN mp, OF own(2),
        THEN conjunct1]
    by (simp add: upd at_def)
  have "delete_task cindy ''task3'' seed =
      (reply 200 (Message ''Task deleted successfully''),
       io_emit ''task_deleted'' \<lparr>event = ''task_deleted'', data = TaskDeletedPayload ''task3''\<rparr>
         (seed\<lparr>subtasks := filter (\<lambda>r. st_task_id r \<noteq> ''task3'') (subtasks seed),
               task_comments := filter (\<lambda>r. c_task_id r \<noteq> ''task3'') (task_comments seed),
               task_assignees := filter (\<lambda>r. ta_task_id r \<noteq> ''task3'') (task_assignees seed),
               task_labels := filter (\<lambda>r. tl_task_id r \<noteq> ''task3'') (task_labels seed),
               tasks := filter (\<lambda>r. t_task_id r \<noteq> ''task3'') (tasks seed)\<rparr>))"
    using t_cindy [THEN conjunct2, THEN conjunct2, THEN conjunct2, THEN mp, OF own(3),
        THEN conjunct2, THEN mp, OF free] .
  then have 4: "fst (delete_task cindy ''task3'' seed) =
      reply 200 (Message ''Task deleted successfully'')"
    and 5: "select_task ''task3'' (snd (delete_task cindy ''task3'' seed)) = []"
    by (simp_all add: select_task_def io_emit_def filter_empty_conv)
  have 6: "fst (update_notification bob ''notif1'' (Val True) seed) =
     reply 200 (Message ''Notification updated'')"
    using n_bob [THEN conjunct2, THEN conjunct2, THEN mp, OF own(4)]
    by simp
  have 7: "update_notification bob ''notif1'' Undefined seed =
     (reply 500 (Message ''Internal server error''), seed)"
    using n_bob' [THEN conjunct2, THEN conjunct2, THEN mp, OF own(4)]
    by simp
  have "fst (update_notification alice ''notif1'' (Val True) seed) =
      reply 403 (Message ''Unauthorized: Cannot update this notification'')"
    using n_alice [THEN conjunct1] own(5) by simp
  moreover have "snd (update_notification alice ''notif1'' (Val True) seed) = seed"
    using n_alice [THEN conjunct2, THEN conjunct1] own(5) by simp
  ultimately have 8: "update_notification alice ''notif1'' (Val True) seed =
     (reply 403 (Message ''Unauthorized: Cannot update this notification''), seed)"
    by (simp add: prod_eq_iff)
  from 1 2 3 4 5 6 7 8 show ?thesis by blast
qed

section \<open>Token verification\<close>


lemma split_no_sep: "c \<notin> set xs \<Longrightarrow> split c xs = [xs]"
  by (induction xs) auto

lemma split_at_sep: "c \<notin> set xs \<Longrightarrow> split c (xs @ c # ys) = xs # split c ys"
  by (induction xs) auto

lemma bearer_token_header:
  assumes "tk \<noteq> []" and "CHR '' '' \<notin> set tk"
  shows "bearer_token (Some (''Bearer '' @ tk)) = Some tk"
proof -
  have "split CHR '' '' (''Bearer'' @ CHR '' '' # tk) = ''Bearer'' # split CHR '' '' tk"
    by (rule split_at_sep) simp
  then have "split CHR '' '' (''Bearer '' @ tk) = [''Bearer'', tk]"
    using assms(2) by (simp add: split_no_sep)
  then show ?thesis
    using assms(1) by (simp add: bearer_token_def at_def)
qed

lemma jwt_verify_Some:
  "jwt_verify e token secret = Some c \<longleftrightarrow>
     (\<exists>t. jwt_decode e token = Some t \<and> jwt_key t = secret \<and> clock e < jwt_exp t \<and>
          jwt_payload t = c)"
  by (auto simp: jwt_verify_def split: option.splits)

text \<open>
  C2: for every token presented on the HTTP path (the bearer token of the Authorization
  header) or on the realtime handshake path (\<open>auth.token\<close>, else \<open>query.token\<close>),
  verification succeeds and yields the identity claim iff the token's signature verifies
  against the server secret and its expiry has not elapsed; a token whose expiry has
  elapsed is refused on both paths whatever its signature.
\<close>

theorem token_verification:
  "(bearer_token h = Some token \<longrightarrow>
      (authenticateToken e h = Inr c \<longleftrightarrow>
         (\<exists>t. jwt_decode e token = Some t \<and> jwt_key t = JWT_SECRET e \<and>
              clock e < jwt_exp t \<and> jwt_payload t = c))) \<and>
   (handshake_token a q = Some token \<longrightarrow>
      (io_use e a q = Inr c \<longleftrightarrow>
         (\<exists>t. jwt_decode e token = Some t \<and> jwt_key t = JWT_SECRET e \<and>
              clock e < jwt_exp t \<and> jwt_payload t = c))) \<and>
   (jwt_decode e token = Some t' \<and> jwt_exp t' \<le> clock e \<longrightarrow>
      (bearer_token h = Some token \<longrightarrow>
         authenticateToken e h = Inl (reply 403 (Message ''Invalid token''))) \<and>
      (handshake_token a q = Some token \<longrightarrow>
         io_use e a q = Inl ''Authentication error: Invalid token''))"
proof (intro conjI impI)
  assume "bearer_token h = Some token"
  then show "authenticateToken e h = Inr c \<longleftrightarrow>
         (\<exists>t. jwt_decode e token = Some t \<and> jwt_key t = JWT_SECRET e \<and>
              clock e < jwt_exp t \<and> jwt_payload t = c)"
    by (simp add: authenticateToken_def jwt_verify_Some [symmetric] split: option.splits)
next
  assume "handshake_token a q = Some token"
  then show "io_use e a q = Inr c \<longleftrightarrow>
         (\<exists>t. jwt_decode e token = Some t \<and> jwt_key t = JWT_SECRET e \<and>
              clock e < jwt_exp t \<and> jwt_payload t = c)"
    by (simp add: io_use_def jwt_verify_Some [symmetric] split: option.splits)
next
  assume x: "jwt_decode e token = Some t' \<and> jwt_exp t' \<le> clock e"
  then have v: "jwt_verify e token (JWT_SECRET e) = None"
    by (simp add: jwt_verify_def)
  show "authenticateToken e h = Inl (reply 403 (Message ''Invalid token''))"
    if "bearer_token h = Some token"
    using that v by (simp add: authenticateToken_def)
  show "io_use e a q = Inl ''Authentication error: Invalid token''"
    if "handshake_token a q = Some token"
    using that v by (simp add: io_use_def)
qed

lemma sample_bearer: "bearer_token (Some ''Bearer tok.alice'') = Some ''tok.alice''"
  using bearer_token_header [of "''tok.alice''"] by simp

lemma sample_bearer_old: "bearer_token (Some ''Bearer tok.old'') = Some ''tok.old''"
  using bearer_token_header [of "''tok.old''"] by simp

lemma sample_handshake: "handshake_token None (Some ''tok.alice'') = Some ''tok.alice''"
  by (simp add: handshake_token_def)

lemma sample_handshake_old: "handshake_token (Some ''tok.old'') (Some ''tok.alice'') = Some ''tok.old''"
  by (simp add: handshake_token_def)

text \<open>
  On the sample environment: Alice's valid token is accepted on both paths, and her expired
  token, signed with the right secret, is refused on both.
\<close>

theorem token_verification_witness:
  "authenticateToken sample_env (Some ''Bearer tok.alice'') = Inr alice \<and>
   io_use sample_env None (Some ''tok.alice'') = Inr alice \<and>
   authenticateToken sample_env (Some ''Bearer tok.old'') =
     Inl (reply 403 (Message ''Invalid token'')) \<and>
   io_use sample_env (Some ''tok.old'') (Some ''tok.alice'') =
     Inl ''Authentication error: Invalid token''"
proof -
  have d1: "jwt_decode sample_env ''tok.alice'' =
      Some \<lparr>jwt_payload = alice, jwt_exp = 2000, jwt_key = ''your_jwt_secret''\<rparr>"
    by (simp add: sample_env_def sample_decode_def)
  have d2: "jwt_decode sample_env ''tok.old'' =
      Some \<lparr>jwt_payload = alice, jwt_exp = 500, jwt_key = ''your_jwt_secret''\<rparr>"
    by (simp add: sample_env_def sample_decode_def)
  have k: "JWT_SECRET sample_env = ''your_jwt_secret''" "clock sample_env = 1000"
    by (simp_all add: JWT_SECRET_def sample_env_def)
  note v1 = token_verification [where h = "Some ''Bearer tok.alice''" and token = "''tok.alice''"
      and e = sample_env and c = alice and a = None and q = "Some ''tok.alice''"]
  note v2 = token_verification [where h = "Some ''Bearer tok.old''" and token = "''tok.old''"
      and e = sample_env and a = "Some ''tok.old''" and q = "Some ''tok.alice''"
      and t' = "\<lparr>jwt_payload = alice, jwt_exp = 500, jwt_key = ''your_jwt_secret''\<rparr>"]
  from v1 sample_bearer sample_handshake d1 k
  have "authenticateToken sample_env (Some ''Bearer tok.alice'') = Inr alice"
    and "io_use sample_env None (Some ''tok.alice'') = Inr alice"
    by simp_all
  moreover from v2 sample_bearer_old sample_handshake_old d2 k
  have "authenticateToken sample_env (Some ''Bearer tok.old'') =
     Inl (reply 403 (Message ''Invalid token''))"
    and "io_use sample_env (Some ''tok.old'') (Some ''tok.alice'') =
     Inl ''Authentication error: Invalid token''"
    by simp_all
  ultimately show ?thesis by simp
qed

section \<open>Event publication\<close>

lemma task_inserts_sockets:
  "\<forall>q \<in> set (task_inserts e u b). \<forall>s s'. q s = Inr s' \<longrightarrow> sockets s' = sockets s"
  by (auto simp: task_inserts_def Let_def dest: insert_sockets)

lemma create_task_events:
  assumes "create_task e u b s = (r, s')"
  shows "if status_code r = 201
         then delivered ''task_created''
                (TaskCreatedPayload (uuidv4 e 0) (js_str (b_title b))
                   (default_to ''pending'' (b_status b)) (or_null (b_due_date b)) (user_id u)) s s'
         else sockets s' = sockets s"
proof -
  obtain x s1 where rn: "run (task_inserts e u b) s = (x, s1)"
    by (cases "run (task_inserts e u b) s")
  have keep: "sockets s1 = sockets s"
    using task_inserts_sockets rn by (rule run_sockets)
  show ?thesis
    using assms keep rn
    by (auto simp: create_task_def Let_def reply_def internal_server_error_def
        io_emit_delivered split: if_splits option.splits)
qed

lemma update_task_events:
  assumes "update_task e u tid b s = (r, s')"
  shows "if status_code r = 200
         then delivered ''task_updated''
                (TaskUpdatedPayload tid
                   \<lparr>uf_status = b_status b, uf_priority = b_priority b,
                     uf_due_date = b_due_date b\<rparr> (timestamp e)) s s'
         else sockets s' = sockets s"
  using assms
  by (auto simp: update_task_def Let_def reply_def internal_server_error_def io_emit_delivered
      dest: update_tasks_sockets split: list.splits if_splits sum.splits)

lemma delete_statements_sockets:
  "\<forall>q \<in> set [delete_subtasks tid, delete_task_comments tid, delete_task_assignees tid,
              delete_task_labels tid, delete_task_row tid].
     \<forall>s s'. q s = Inr s' \<longrightarrow> sockets s' = sockets s"
  by (auto dest: delete_sockets)

lemma delete_task_events:
  assumes "delete_task u tid s = (r, s')"
  shows "if status_code r = 200 then delivered ''task_deleted'' (TaskDeletedPayload tid) s s'
         else sockets s' = sockets s"
proof -
  let ?qs = "[delete_subtasks tid, delete_task_comments tid, delete_task_assignees tid,
              delete_task_labels tid, delete_task_row tid]"
  obtain x s1 where rn: "run ?qs s = (x, s1)" by (cases "run ?qs s")
  have keep: "sockets s1 = sockets s"
    using delete_statements_sockets rn by (rule run_sockets)
  show ?thesis
    using assms keep rn
    by (auto simp: delete_task_def reply_def internal_server_error_def io_emit_delivered
        split: list.splits if_splits option.splits sum.splits)
qed

lemma add_comment_events:
  assumes "add_comment e u tid ctext s = (r, s')"
  shows "if status_code r = 201
         then delivered ''new_comment''
                (CommentPayload (uuidv4 e 0) tid (user_id u) (js_str ctext) (timestamp e)) s s'
         else sockets s' = sockets s"
proof -
  let ?qs = "[insert_task_comment (uuidv4 e 0) tid (user_id u) (js_str ctext) (timestamp e)]"
  obtain x s1 where rn: "run ?qs s = (x, s1)" by (cases "run ?qs s")
  have keep: "sockets s1 = sockets s"
    using rn by (rule run_sockets [rotated]) (auto dest: insert_sockets)
  show ?thesis
    using assms keep rn
    by (auto simp: add_comment_def Let_def reply_def internal_server_error_def
        io_emit_delivered split: if_splits option.splits)
qed

text \<open>What each handler answers and stores, and when.\<close>

lemma add_comment_outcome:
  assumes "add_comment e u tid ctext s = (r, s')"
  shows "(status_code r = 201 \<longleftrightarrow>
            truthy ctext \<and>
            \<not> rejected [Some (uuidv4 e 0), Some tid, Some (user_id u), Some (js_str ctext),
                         Some (timestamp e)] \<and>
            uuidv4 e 0 \<notin> set (map c_comment_id (task_comments s)) \<and>
            tid \<in> set (map t_task_id (tasks s)) \<and>
            user_id u \<in> set (map u_user_id (users s))) \<and>
         (status_code r = 201 \<longrightarrow>
            s' = io_emit ''new_comment''
                   \<lparr>event = ''new_comment'',
                     data = CommentPayload (uuidv4 e 0) tid (user_id u) (js_str ctext)
                              (timestamp e)\<rparr>
                   (s\<lparr>task_comments := task_comments s @
                        [\<lparr>c_comment_id = uuidv4 e 0, c_task_id = tid, c_user_id = user_id u,
                          c_comment_text = js_str ctext, c_created_at = timestamp e\<rparr>]\<rparr>)) \<and>
         (status_code r \<noteq> 201 \<longrightarrow> s' = s)"
  using assms
  by (auto simp: add_comment_def insert_task_comment_def Let_def reply_def
      internal_server_error_def split: if_splits)

lemma delete_task_outcome:
  assumes "delete_task u tid s = (r, s')"
  shows "(status_code r = 200 \<longleftrightarrow>
            (case pool_query [Some tid] (select_task tid s) of
               Inr (t # ts) \<Rightarrow> t_creator_id t = user_id u
             | _ \<Rightarrow> False) \<and>
            Some tid \<notin> set (map n_task_id (notifications s))) \<and>
         (status_code r = 200 \<longrightarrow>
            s' = io_emit ''task_deleted''
                   \<lparr>event = ''task_deleted'', data = TaskDeletedPayload tid\<rparr>
                   (s\<lparr>subtasks := filter (\<lambda>r. st_task_id r \<noteq> tid) (subtasks s),
                      task_comments := filter (\<lambda>r. c_task_id r \<noteq> tid) (task_comments s),
                      task_assignees := filter (\<lambda>r. ta_task_id r \<noteq> tid) (task_assignees s),
                      task_labels := filter (\<lambda>r. tl_task_id r \<noteq> tid) (task_labels s),
                      tasks := filter (\<lambda>r. t_task_id r \<noteq> tid) (tasks s)\<rparr>))"
proof (cases "pool_query [Some tid] (select_task tid s)")
  case (Inl err)
  then show ?thesis
    using assms by (auto simp: delete_task_def internal_server_error_def reply_def)
next
  case (Inr rows)
  show ?thesis
  proof (cases rows)
    case Nil
    then show ?thesis
      using assms Inr by (auto simp: delete_task_def reply_def)
  next
    case (Cons t ts)
    have n: "\<not> rejected [Some tid]" and sel: "select_task tid s = t # ts"
      using Inr Cons by (simp_all add: pool_query_Inr)
    have mem: "tid \<in> set (map t_task_id (tasks s))"
      using select_task_Cons [OF sel] by force
    have d: "delete_task u tid s =
        (if t_creator_id t \<noteq> user_id u
         then (reply 403
                 (Message ''Unauthorized: Only the task creator can delete the task''), s)
         else if Some tid \<in> set (map n_task_id (notifications s))
         then (internal_server_error,
               s\<lparr>subtasks := filter (\<lambda>r. st_task_id r \<noteq> tid) (subtasks s),
                 task_comments := filter (\<lambda>r. c_task_id r \<noteq> tid) (task_comments s),
                 task_assignees := filter (\<lambda>r. ta_task_id r \<noteq> tid) (task_assignees s),
                 task_labels := filter (\<lambda>r. tl_task_id r \<noteq> tid) (task_labels s)\<rparr>)
         else (reply 200 (Message ''Task deleted successfully''),
               io_emit ''task_deleted''
                 \<lparr>event = ''task_deleted'', data = TaskDeletedPayload tid\<rparr>
                 (s\<lparr>subtasks := filter (\<lambda>r. st_task_id r \<noteq> tid) (subtasks s),
                    task_comments := filter (\<lambda>r. c_task_id r \<noteq> tid) (task_comments s),
                    task_assignees := filter (\<lambda>r. ta_task_id r \<noteq> tid) (task_assignees s),
                    task_labels := filter (\<lambda>r. tl_task_id r \<noteq> tid) (task_labels s),
                    tasks := filter (\<lambda>r. t_task_id r \<noteq> tid) (tasks s)\<rparr>)))"
      by (simp add: delete_task_def Inr Cons run_deletes [OF n mem] del: run.simps)
    show ?thesis
      using assms Inr Cons unfolding d
      by (auto simp: reply_def internal_server_error_def split: if_splits)
  qed
qed

lemma update_task_outcome:
  assumes "update_task e u tid b s = (r, s')"
  shows "(status_code r = 200 \<longleftrightarrow>
            (case pool_query [Some tid] (select_task tid s) of
               Inr (t # ts) \<Rightarrow> t_creator_id t = user_id u
             | _ \<Rightarrow> False) \<and>
            \<not> isl (update_tasks (update_fields e b) tid s)) \<and>
         (status_code r = 200 \<longrightarrow>
            s' = io_emit ''task_updated''
                   \<lparr>event = ''task_updated'',
                     data = TaskUpdatedPayload tid
                              \<lparr>uf_status = b_status b, uf_priority = b_priority b,
                                uf_due_date = b_due_date b\<rparr> (timestamp e)\<rparr>
                   (fst (projr (update_tasks (update_fields e b) tid s)))) \<and>
         (status_code r \<noteq> 200 \<longrightarrow> s' = s)"
  using assms
  by (auto simp: update_task_def Let_def reply_def internal_server_error_def
      split: list.splits if_splits sum.splits)

lemma run_task_inserts_tasks:
  assumes "run (task_inserts e u b) s = (None, s1)"
  shows "tasks s1 = tasks s @
           [\<lparr>t_task_id = uuidv4 e 0, t_title = js_str (b_title b),
             t_description = or_null (b_description b), t_due_date = or_null (b_due_date b),
             t_priority = js_str (default_to ''medium'' (b_priority b)),
             t_status = js_str (default_to ''pending'' (b_status b)),
             t_creator_id = user_id u, t_project_id = or_null (b_project_id b),
             t_created_at = timestamp e, t_updated_at = timestamp e\<rparr>]"
proof -
  let ?q0 = "insert_task (uuidv4 e 0) (js_str (b_title b)) (or_null (b_description b))
               (or_null (b_due_date b)) (sql_param (default_to ''medium'' (b_priority b)))
               (sql_param (default_to ''pending'' (b_status b)))
               (user_id u) (or_null (b_project_id b)) (timestamp e) (timestamp e)"
  let ?rest = "map (\<lambda>(i, st). insert_subtask (uuidv4 e i) (uuidv4 e 0) (sql_param st) (timestamp e))
                 (enumerate 1 (b_subtasks b))
               @ map (\<lambda>(i, a). insert_task_assignee (uuidv4 e i) (uuidv4 e 0) a (timestamp e))
                   (enumerate (1 + length (b_subtasks b)) (b_assignees b))
               @ map (\<lambda>(i, l). insert_task_label (uuidv4 e i) (uuidv4 e 0) l)
                   (enumerate (1 + length (b_subtasks b) + length (b_assignees b)) (b_labels b))"
  have ti: "task_inserts e u b = ?q0 # ?rest"
    by (simp add: task_inserts_def Let_def)
  obtain s0 where q0: "?q0 s = Inr s0" and rn: "run ?rest s0 = (None, s1)"
    using assms unfolding ti run_Cons_None by blast
  have p: "sql_param (default_to ''medium'' (b_priority b)) =
        Some (js_str (default_to ''medium'' (b_priority b)))"
    using q0 by (cases "b_priority b") (auto simp: insert_task_def split: if_splits option.splits)
  have st: "sql_param (default_to ''pending'' (b_status b)) =
        Some (js_str (default_to ''pending'' (b_status b)))"
    using q0 by (cases "b_status b") (auto simp: insert_task_def split: if_splits option.splits)
  have s0: "tasks s0 = tasks s @
           [\<lparr>t_task_id = uuidv4 e 0, t_title = js_str (b_title b),
             t_description = or_null (b_description b), t_due_date = or_null (b_due_date b),
             t_priority = js_str (default_to ''medium'' (b_priority b)),
             t_status = js_str (default_to ''pending'' (b_status b)),
             t_creator_id = user_id u, t_project_id = or_null (b_project_id b),
             t_created_at = timestamp e, t_updated_at = timestamp e\<rparr>]"
    using q0 unfolding insert_task_def p st by (auto split: if_splits)
  have "\<forall>q \<in> set ?rest. \<forall>a a'. tasks a = tasks s0 \<longrightarrow> q a = Inr a' \<longrightarrow> tasks a' = tasks s0"
    by (auto dest: child_insert_tasks)
  then have "tasks s1 = tasks s0"
    using _ rn by (rule run_invariant) simp
  then show ?thesis using s0 by simp
qed

lemma create_task_outcome:
  assumes "create_task e u b s = (r, s')"
  shows "(status_code r = 201 \<longleftrightarrow>
            truthy (b_title b) \<and> list_all truthy (b_subtasks b) \<and>
            fst (run (task_inserts e u b) s) = None) \<and>
         (status_code r = 201 \<longrightarrow>
            s' = io_emit ''task_created''
                   \<lparr>event = ''task_created'',
                     data = TaskCreatedPayload (uuidv4 e 0) (js_str (b_title b))
                              (default_to ''pending'' (b_status b)) (or_null (b_due_date b))
                              (user_id u)\<rparr>
                   (snd (run (task_inserts e u b) s)) \<and>
            tasks s' = tasks s @
              [\<lparr>t_task_id = uuidv4 e 0, t_title = js_str (b_title b),
                t_description = or_null (b_description b), t_due_date = or_null (b_due_date b),
                t_priority = js_str (default_to ''medium'' (b_priority b)),
                t_status = js_str (default_to ''pending'' (b_status b)),
                t_creator_id = user_id u, t_project_id = or_null (b_project_id b),
                t_created_at = timestamp e, t_updated_at = timestamp e\<rparr>])"
proof -
  obtain x s1 where rn: "run (task_inserts e u b) s = (x, s1)"
    by (cases "run (task_inserts e u b) s")
  have tk: "tasks (io_emit ev m s1) = tasks s @
              [\<lparr>t_task_id = uuidv4 e 0, t_title = js_str (b_title b),
                t_description = or_null (b_description b), t_due_date = or_null (b_due_date b),
                t_priority = js_str (default_to ''medium'' (b_priority b)),
                t_status = js_str (default_to ''pending'' (b_status b)),
                t_creator_id = user_id u, t_project_id = or_null (b_project_id b),
                t_created_at = timestamp e, t_updated_at = timestamp e\<rparr>]"
    if "x = None" for ev m
    using run_task_inserts_tasks [of e u b s s1] rn that by (simp add: io_emit_def)
  show ?thesis
    using assms rn tk
    by (cases x)
      (auto simp: create_task_def Let_def reply_def internal_server_error_def
        split: if_splits)
qed

lemma if_both: "(if c then p else q) \<Longrightarrow> (c \<longrightarrow> p) \<and> (\<not> c \<longrightarrow> q)"
  by simp

text \<open>
  C3: for each mutation handler (task create, task update, task delete, comment create),
  the handler answers with its success status iff the mutation completes: the input
  passes validation, the resource is found and the caller owns it where that is asked, and
  the storage accepts every statement. Then the rows are stored or removed and exactly one
  envelope \<open>{event, data}\<close> of the corresponding type (\<open>task_created\<close>, \<open>task_updated\<close>,
  \<open>task_deleted\<close>, \<open>new_comment\<close>) is sent, to every registered socket without any
  filtering. When the handler fails (validation, authorization, not found, storage) no
  socket is sent anything.
\<close>

theorem events_on_success:
  "(case create_task e u b s of (r, s') \<Rightarrow>
      (status_code r = 201 \<longleftrightarrow>
         truthy (b_title b) \<and> list_all truthy (b_subtasks b) \<and>
         fst (run (task_inserts e u b) s) = None) \<and>
      (status_code r = 201 \<longrightarrow>
         s' = io_emit ''task_created''
                \<lparr>event = ''task_created'',
                  data = TaskCreatedPayload (uuidv4 e 0) (js_str (b_title b))
                           (default_to ''pending'' (b_status b)) (or_null (b_due_date b))
                           (user_id u)\<rparr>
                (snd (run (task_inserts e u b) s)) \<and>
         tasks s' = tasks s @
           [\<lparr>t_task_id = uuidv4 e 0, t_title = js_str (b_title b),
             t_description = or_null (b_description b), t_due_date = or_null (b_due_date b),
             t_priority = js_str (default_to ''medium'' (b_priority b)),
             t_status = js_str (default_to ''pending'' (b_status b)),
             t_creator_id = user_id u, t_project_id = or_null (b_project_id b),
             t_created_at = timestamp e, t_updated_at = timestamp e\<rparr>] \<and>
         delivered ''task_created''
           (TaskCreatedPayload (uuidv4 e 0) (js_str (b_title b))
              (default_to ''pending'' (b_status b)) (or_null (b_due_date b)) (user_id u)) s s') \<and>
      (status_code r \<noteq> 201 \<longrightarrow> sockets s' = sockets s)) \<and>
   (case update_task e u tid b s of (r, s') \<Rightarrow>
      (status_code r = 200 \<longleftrightarrow>
         (case pool_query [Some tid] (select_task tid s) of
            Inr (t # ts) \<Rightarrow> t_creator_id t = user_id u
          | _ \<Rightarrow> False) \<and>
         \<not> isl (update_tasks (update_fields e b) tid s)) \<and>
      (status_code r = 200 \<longrightarrow>
         s' = io_emit ''task_updated''
                \<lparr>event = ''task_updated'',
                  data = TaskUpdatedPayload tid
                           \<lparr>uf_status = b_status b, uf_priority = b_priority b,
                             uf_due_date = b_due_date b\<rparr> (timestamp e)\<rparr>
                (fst (projr (update_tasks (update_fields e b) tid s))) \<and>
         delivered ''task_updated''
           (TaskUpdatedPayload tid
              \<lparr>uf_status = b_status b, uf_priority = b_priority b,
                uf_due_date = b_due_date b\<rparr> (timestamp e)) s s') \<and>
      (status_code r \<noteq> 200 \<longrightarrow> s' = s)) \<and>
   (case delete_task u tid s of (r, s') \<Rightarrow>
      (status_code r = 200 \<longleftrightarrow>
         (case pool_query [Some tid] (select_task tid s) of
            Inr (t # ts) \<Rightarrow> t_creator_id t = user_id u
          | _ \<Rightarrow> False) \<and>
         Some tid \<notin> set (map n_task_id (notifications s))) \<and>
      (status_code r = 200 \<longrightarrow>
         s' = io_emit ''task_deleted''
                \<lparr>event = ''task_deleted'', data = TaskDeletedPayload tid\<rparr>
                (s\<lparr>subtasks := filter (\<lambda>r. st_task_id r \<noteq> tid) (subtasks s),
                   task_comments := filter (\<lambda>r. c_task_id r \<noteq> tid) (task_comments s),
                   task_assignees := filter (\<lambda>r. ta_task_id r \<noteq> tid) (task_assignees s),
                   task_labels := filter (\<lambda>r. tl_task_id r \<noteq> tid) (task_labels s),
                   tasks := filter (\<lambda>r. t_task_id r \<noteq> tid) (tasks s)\<rparr>) \<and>
         delivered ''task_deleted'' (TaskDeletedPayload tid) s s') \<and>
      (status_code r \<noteq> 200 \<longrightarrow> sockets s' = sockets s)) \<and>
   (case add_comment e u tid ctext s of (r, s') \<Rightarrow>
      (status_code r = 201 \<longleftrightarrow>
         truthy ctext \<and>
         \<not> rejected [Some (uuidv4 e 0), Some tid, Some (user_id u), Some (js_str ctext),
                      Some (timestamp e)] \<and>
         uuidv4 e 0 \<notin> set (map c_comment_id (task_comments s)) \<and>
         tid \<in> set (map t_task_id (tasks s)) \<and>
         user_id u \<in> set (map u_user_id (users s))) \<and>
      (status_code r = 201 \<longrightarrow>
         s' = io_emit ''new_comment''
                \<lparr>event = ''new_comment'',
                  data = CommentPayload (uuidv4 e 0) tid (user_id u) (js_str ctext)
                           (timestamp e)\<rparr>
                (s\<lparr>task_comments := task_comments s @
                     [\<lparr>c_comment_id = uuidv4 e 0, c_task_id = tid, c_user_id = user_id u,
                       c_comment_text = js_str ctext, c_created_at = timestamp e\<rparr>]\<rparr>) \<and>
         delivered ''new_comment''
           (CommentPayload (uuidv4 e 0) tid (user_id u) (js_str ctext) (timestamp e)) s s') \<and>
      (status_code r \<noteq> 201 \<longrightarrow> s' = s))"
proof (intro conjI)
  obtain r s' where c: "create_task e u b s = (r, s')" by (cases "create_task e u b s")
  show "case create_task e u b s of (r, s') \<Rightarrow>
      (status_code r = 201 \<longleftrightarrow>
         truthy (b_title b) \<and> list_all truthy (b_subtasks b) \<and>
         fst (run (task_inserts e u b) s) = None) \<and>
      (status_code r = 201 \<longrightarrow>
         s' = io_emit ''task_created''
                \<lparr>event = ''task_created'',
                  data = TaskCreatedPayload (uuidv4 e 0) (js_str (b_title b))
                           (default_to ''pending'' (b_status b)) (or_null (b_due_date b))
                           (user_id u)\<rparr>
                (snd (run (task_inserts e u b) s)) \<and>
         tasks s' = tasks s @
           [\<lparr>t_task_id = uuidv4 e 0, t_title = js_str (b_title b),
             t_description = or_null (b_description b), t_due_date = or_null (b_due_date b),
             t_priority = js_str (default_to ''medium'' (b_priority b)),
             t_status = js_str (default_to ''pending'' (b_status b)),
             t_creator_id = user_id u, t_project_id = or_null (b_project_id b),
             t_created_at = timestamp e, t_updated_at = timestamp e\<rparr>] \<and>
         delivered ''task_created''
           (TaskCreatedPayload (uuidv4 e 0) (js_str (b_title b))
              (default_to ''pending'' (b_status b)) (or_null (b_due_date b)) (user_id u)) s s') \<and>
      (status_code r \<noteq> 201 \<longrightarrow> sockets s' = sockets s)"
    unfolding c prod.case
    using create_task_outcome [OF c] create_task_events [OF c, THEN if_both] by blast
next
  obtain r s' where c: "update_task e u tid b s = (r, s')" by (cases "update_task e u tid b s")
  show "case update_task e u tid b s of (r, s') \<Rightarrow>
      (status_code r = 200 \<longleftrightarrow>
         (case pool_query [Some tid] (select_task tid s) of
            Inr (t # ts) \<Rightarrow> t_creator_id t = user_id u
          | _ \<Rightarrow> False) \<and>
         \<not> isl (update_tasks (update_fields e b) tid s)) \<and>
      (status_code r = 200 \<longrightarrow>
         s' = io_emit ''task_updated''
                \<lparr>event = ''task_updated'',
                  data = TaskUpdatedPayload tid
                           \<lparr>uf_status = b_status b, uf_priority = b_priority b,
                             uf_due_date = b_due_date b\<rparr> (timestamp e)\<rparr>
                (fst (projr (update_tasks (update_fields e b) tid s))) \<and>
         delivered ''task_updated''
           (TaskUpdatedPayload tid
              \<lparr>uf_status = b_status b, uf_priority = b_priority b,
                uf_due_date = b_due_date b\<rparr> (timestamp e)) s s') \<and>
      (status_code r \<noteq> 200 \<longrightarrow> s' = s)"
    unfolding c prod.case
    using update_task_outcome [OF c] update_task_events [OF c, THEN if_both] by blast
next
  obtain r s' where c: "delete_task u tid s = (r, s')" by (cases "delete_task u tid s")
  show "case delete_task u tid s of (r, s') \<Rightarrow>
      (status_code r = 200 \<longleftrightarrow>
         (case pool_query [Some tid] (select_task tid s) of
            Inr (t # ts) \<Rightarrow> t_creator_id t = user_id u
          | _ \<Rightarrow> False) \<and>
         Some tid \<notin> set (map n_task_id (notifications s))) \<and>
      (status_code r = 200 \<longrightarrow>
         s' = io_emit ''task_deleted''
                \<lparr>event = ''task_deleted'', data = TaskDeletedPayload tid\<rparr>
                (s\<lparr>subtasks := filter (\<lambda>r. st_task_id r \<noteq> tid) (subtasks s),
                   task_comments := filter (\<lambda>r. c_task_id r \<noteq> tid) (task_comments s),
                   task_assignees := filter (\<lambda>r. ta_task_id r \<noteq> tid) (task_assignees s),
                   task_labels := filter (\<lambda>r. tl_task_id r \<noteq> tid) (task_labels s),
                   tasks := filter (\<lambda>r. t_task_id r \<noteq> tid) (tasks s)\<rparr>) \<and>
         delivered ''task_deleted'' (TaskDeletedPayload tid) s s') \<and>
      (status_code r \<noteq> 200 \<longrightarrow> sockets s' = sockets s)"
    unfolding c prod.case
    using delete_task_outcome [OF c] delete_task_events [OF c, THEN if_both] by blast
next
  obtain r s' where c: "add_comment e u tid ctext s = (r, s')"
    by (cases "add_comment e u tid ctext s")
  show "case add_comment e u tid ctext s of (r, s') \<Rightarrow>
      (status_code r = 201 \<longleftrightarrow>
         truthy ctext \<and>
         \<not> rejected [Some (uuidv4 e 0), Some tid, Some (user_id u), Some (js_str ctext),
                      Some (timestamp e)] \<and>
         uuidv4 e 0 \<notin> set (map c_comment_id (task_comments s)) \<and>
         tid \<in> set (map t_task_id (tasks s)) \<and>
         user_id u \<in> set (map u_user_id (users s))) \<and>
      (status_code r = 201 \<longrightarrow>
         s' = io_emit ''new_comment''
                \<lparr>event = ''new_comment'',
                  data = CommentPayload (uuidv4 e 0) tid (user_id u) (js_str ctext)
                           (timestamp e)\<rparr>
                (s\<lparr>task_comments := task_comments s @
                     [\<lparr>c_comment_id = uuidv4 e 0, c_task_id = tid, c_user_id = user_id u,
                       c_comment_text = js_str ctext, c_created_at = timestamp e\<rparr>]\<rparr>) \<and>
         delivered ''new_comment''
           (CommentPayload (uuidv4 e 0) tid (user_id u) (js_str ctext) (timestamp e)) s s') \<and>
      (status_code r \<noteq> 201 \<longrightarrow> s' = s)"
    unfolding c prod.case
    using add_comment_outcome [OF c] add_comment_events [OF c, THEN if_both] by blast
qed

text \<open>
  With Bob connected. Alice's task creation, her update of \<open>task1\<close>, Cindy's deletion of
  \<open>task3\<close> and Alice's comment on \<open>task1\<close> succeed and each reaches his socket. Alice's
  deletion of \<open>task1\<close> (a notification refers to it), her comment on a task that does not
  exist and her comment without text fail and send nothing.
\<close>

theorem events_on_success_witness:
  "status_code (fst (create_task sample_env alice (empty_body\<lparr>b_title := Val ''Write spec''\<rparr>)
                       seed_online)) = 201 \<and>
   delivered ''task_created''
     (TaskCreatedPayload ''uuid-'' ''Write spec'' (Val ''pending'') None ''user1'')
     seed_online
     (snd (create_task sample_env alice (empty_body\<lparr>b_title := Val ''Write spec''\<rparr>) seed_online)) \<and>
   status_code (fst (update_task sample_env alice ''task1''
                       (empty_body\<lparr>b_status := Val ''completed''\<rparr>) seed_online)) = 200 \<and>
   delivered ''task_updated''
     (TaskUpdatedPayload ''task1''
        \<lparr>uf_status = Val ''completed'', uf_priority = Undefined, uf_due_date = Undefined\<rparr>
        ''2023-10-06T09:00:00.000Z'')
     seed_online
     (snd (update_task sample_env alice ''task1''
             (empty_body\<lparr>b_status := Val ''completed''\<rparr>) seed_online)) \<and>
   status_code (fst (delete_task cindy ''task3'' seed_online)) = 200 \<and>
   delivered ''task_deleted'' (TaskDeletedPayload ''task3'') seed_online
     (snd (delete_task cindy ''task3'' seed_online)) \<and>
   status_code (fst (delete_task alice ''task1'' seed_online)) = 500 \<and>
   sockets (snd (delete_task alice ''task1'' seed_online)) = sockets seed_online \<and>
   status_code (fst (add_comment sample_env alice ''task1'' (Val ''On it'') seed_online)) = 201 \<and>
   delivered ''new_comment''
     (CommentPayload ''uuid-'' ''task1'' ''user1'' ''On it'' ''2023-10-06T09:00:00.000Z'')
     seed_online
     (snd (add_comment sample_env alice ''task1'' (Val ''On it'') seed_online)) \<and>
   status_code (fst (add_comment sample_env alice ''task9'' (Val ''On it'') seed_online)) = 500 \<and>
   snd (add_comment sample_env alice ''task9'' (Val ''On it'') seed_online) = seed_online \<and>
   status_code (fst (add_comment sample_env alice ''task1'' (Val []) seed_online)) = 400 \<and>
   snd (add_comment sample_env alice ''task1'' (Val []) seed_online) = seed_online"
proof -
  let ?b1 = "empty_body\<lparr>b_title := Val ''Write spec''\<rparr>"
  let ?b2 = "empty_body\<lparr>b_status := Val ''completed''\<rparr>"
  have c1: "status_code (fst (create_task sample_env alice ?b1 seed_online)) = 201"
    by code_simp
  have c2: "status_code (fst (update_task sample_env alice ''task1'' ?b2 seed_online)) = 200"
    by code_simp
  have c3: "status_code (fst (delete_task cindy ''task3'' seed_online)) = 200"
    by code_simp
  have c4: "status_code (fst (delete_task alice ''task1'' seed_online)) = 500"
    by code_simp
  have c5: "status_code (fst (add_comment sample_env alice ''task1'' (Val ''On it'') seed_online))
      = 201"
    by code_simp
  have c6: "status_code (fst (add_comment sample_env alice ''task9'' (Val ''On it'') seed_online))
      = 500"
    by code_simp
  have c7: "status_code (fst (add_comment sample_env alice ''task1'' (Val []) seed_online)) = 400"
    by code_simp
  have v: "uuidv4 sample_env 0 = ''uuid-''" "user_id alice = ''user1''"
    "timestamp sample_env = ''2023-10-06T09:00:00.000Z''"
    by (simp_all add: sample_env_def alice_def)
  note a = events_on_success [where e = sample_env and u = alice and s = seed_online
      and b = ?b1, THEN conjunct1]
  note b = events_on_success [where e = sample_env and u = alice and s = seed_online
      and b = ?b2 and tid = "''task1''", THEN conjunct2, THEN conjunct1]
  note c = events_on_success [where u = cindy and s = seed_online and tid = "''task3''",
      THEN conjunct2, THEN conjunct2, THEN conjunct1]
  note d = events_on_success [where u = alice and s = seed_online and tid = "''task1''",
      THEN conjunct2, THEN conjunct2, THEN conjunct1]
  note f = events_on_success [where e = sample_env and u = alice and s = seed_online
      and tid = "''task1''" and ctext = "Val ''On it''",
      THEN conjunct2, THEN conjunct2, THEN conjunct2]
  note g = events_on_success [where e = sample_env and u = alice and s = seed_online
      and tid = "''task9''" and ctext = "Val ''On it''",
      THEN conjunct2, THEN conjunct2, THEN conjunct2]
  note h = events_on_success [where e = sample_env and u = alice and s = seed_online
      and tid = "''task1''" and ctext = "Val []",
      THEN conjunct2, THEN conjunct2, THEN conjunct2]
  have "delivered ''task_created''
     (TaskCreatedPayload (uuidv4 sample_env 0) (js_str (b_title ?b1))
        (default_to ''pending'' (b_status ?b1)) (or_null (b_due_date ?b1)) (user_id alice))
     seed_online (snd (create_task sample_env alice ?b1 seed_online))"
    using a c1 unfolding case_prod_beta by blast
  then have 1: "delivered ''task_created''
     (TaskCreatedPayload ''uuid-'' ''Write spec'' (Val ''pending'') None ''user1'')
     seed_online (snd (create_task sample_env alice ?b1 seed_online))"
    by (simp add: v empty_body_def)
  have "delivered ''task_updated''
     (TaskUpdatedPayload ''task1''
        \<lparr>uf_status = b_status ?b2, uf_priority = b_priority ?b2,
          uf_due_date = b_due_date ?b2\<rparr> (timestamp sample_env))
     seed_online (snd (update_task sample_env alice ''task1'' ?b2 seed_online))"
    using b c2 unfolding case_prod_beta by blast
  then have 2: "delivered ''task_updated''
     (TaskUpdatedPayload ''task1''
        \<lparr>uf_status = Val ''completed'', uf_priority = Undefined, uf_due_date = Undefined\<rparr>
        ''2023-10-06T09:00:00.000Z'')
     seed_online (snd (update_task sample_env alice ''task1'' ?b2 seed_online))"
    by (simp add: v empty_body_def)
  have 3: "delivered ''task_deleted'' (TaskDeletedPayload ''task3'') seed_online
     (snd (delete_task cindy ''task3'' seed_online))"
    using c c3 unfolding case_prod_beta by blast
  have "status_code (fst (delete_task alice ''task1'' seed_online)) \<noteq> 200"
    using c4 by simp
  then have 4: "sockets (snd (delete_task alice ''task1'' seed_online)) = sockets seed_online"
    using d unfolding case_prod_beta by blast
  have "delivered ''new_comment''
     (CommentPayload (uuidv4 sample_env 0) ''task1'' (user_id alice) (js_str (Val ''On it''))
        (timestamp sample_env))
     seed_online (snd (add_comment sample_env alice ''task1'' (Val ''On it'') seed_online))"
    using f c5 unfolding case_prod_beta by blast
  then have 5: "delivered ''new_comment''
     (CommentPayload ''uuid-'' ''task1'' ''user1'' ''On it'' ''2023-10-06T09:00:00.000Z'')
     seed_online (snd (add_comment sample_env alice ''task1'' (Val ''On it'') seed_online))"
    by (simp add: v)
  have "status_code (fst (add_comment sample_env alice ''task9'' (Val ''On it'') seed_online))
      \<noteq> 201"
    using c6 by simp
  then have 6: "snd (add_comment sample_env alice ''task9'' (Val ''On it'') seed_online)
      = seed_online"
    using g unfolding case_prod_beta by blast
  have "status_code (fst (add_comment sample_env alice ''task1'' (Val []) seed_online)) \<noteq> 201"
    using c7 by simp
  then have 7: "snd (add_comment sample_env alice ''task1'' (Val []) seed_online) = seed_online"
    using h unfolding case_prod_beta by blast
  from c1 c2 c3 c4 c5 c6 c7 1 2 3 4 5 6 7 show ?thesis by blast
qed

section \<open>Task deletion\<close>

text \<open>
  When no notification refers to the task, its creator's deletion removes the child rows
  and the task row, and a later lookup answers 404.
\<close>

lemma delete_task_unreferenced:
  assumes "pool_query [Some tid] (select_task tid s) = Inr (t # ts)"
    and "t_creator_id t = user_id u"
    and "Some tid \<notin> set (map n_task_id (notifications s))"
  shows "case delete_task u tid s of (r, s') \<Rightarrow>
           r = reply 200 (Message ''Task deleted successfully'') \<and>
           filter (\<lambda>x. st_task_id x = tid) (subtasks s') = [] \<and>
           filter (\<lambda>x. c_task_id x = tid) (task_comments s') = [] \<and>
           filter (\<lambda>x. ta_task_id x = tid) (task_assignees s') = [] \<and>
           filter (\<lambda>x. tl_task_id x = tid) (task_labels s') = [] \<and>
           select_task tid s' = [] \<and>
           fst (get_task u tid s') = reply 404 (Message ''Task not found'')"
proof -
  have n: "\<not> rejected [Some tid]" and sel: "select_task tid s = t # ts"
    using assms(1) by (simp_all add: pool_query_Inr)
  have mem: "tid \<in> set (map t_task_id (tasks s))"
    using select_task_Cons [OF sel] by force
  show ?thesis
    using assms n
    by (simp add: delete_task_def run_deletes [OF n mem] del: run.simps)
      (auto simp: io_emit_def select_task_def get_task_def pool_query_def filter_empty_conv)
qed

text \<open>
  C4 says that every deletion of a task by its creator removes the dependent rows and then
  the task row, so that a later lookup yields NotFound. The handler deletes the rows of
  four of the five tables that reference \<open>tasks\<close> and misses \<open>notifications\<close>. On the seed
  data Alice deletes her \<open>task1\<close>, which \<open>notif1\<close> refers to: the subtasks, comments,
  assignee links and label links are deleted, the deletion of the task row is rejected, the
  answer is 500, and the task is still there.
\<close>

theorem delete_task_leaves_task_behind:
  "select_task ''task1'' seed = [seed_task1] \<and> t_creator_id seed_task1 = user_id alice \<and>
   Some ''task1'' \<in> set (map n_task_id (notifications seed)) \<and>
   length (filter (\<lambda>x. st_task_id x = ''task1'') (subtasks seed)) = 2 \<and>
   (case delete_task alice ''task1'' seed of (r, s') \<Rightarrow>
      r = reply 500 (Message ''Internal server error'') \<and>
      filter (\<lambda>x. st_task_id x = ''task1'') (subtasks s') = [] \<and>
      filter (\<lambda>x. c_task_id x = ''task1'') (task_comments s') = [] \<and>
      filter (\<lambda>x. ta_task_id x = ''task1'') (task_assignees s') = [] \<and>
      filter (\<lambda>x. tl_task_id x = ''task1'') (task_labels s') = [] \<and>
      select_task ''task1'' s' = [seed_task1] \<and>
      status_code (fst (get_task alice ''task1'' s')) = 200)"
  by code_simp

section \<open>Task list\<close>

text \<open>What the assembled WHERE clause selects, with and without a status filter.\<close>

lemma list_where_filtered:
  assumes "v \<noteq> []"
  shows "sql_where (list_where uid (Some v)) s t \<longleftrightarrow>
           t_creator_id t = uid \<or>
           (t_task_id t \<in> set (map ta_task_id (filter (\<lambda>a. ta_user_id a = uid) (task_assignees s)))
            \<and> t_status t = v)"
  using assms by (simp add: sql_where_def list_where_def)

lemma list_where_unfiltered:
  "sql_where (list_where uid None) s t \<longleftrightarrow>
           t_creator_id t = uid \<or>
           t_task_id t \<in> set (map ta_task_id (filter (\<lambda>a. ta_user_id a = uid) (task_assignees s)))"
  by (simp add: sql_where_def list_where_def)

text \<open>
  C5 says that with a status filter the list is exactly the tasks with (caller is creator
  or assignee) and status equal to the filter. The handler appends \<open>AND t.status = $2\<close> to
  \<open>creator_id = $1 OR task_id IN (...)\<close> without parentheses, so the filter applies to the
  assignee branch only. On the seed data Alice asks for \<open>completed\<close> tasks and receives
  \<open>task1\<close>, which she created and which is \<open>in_progress\<close>.
\<close>

theorem list_tasks_ignores_filter_for_creator:
  "t_status seed_task1 = ''in_progress'' \<and>
   list_tasks alice (Some ''completed'') seed =
     (reply 200 (TasksBody [(seed_task1, [''user2'', ''user3''], [''label1'', ''label4''])]), seed)"
  by code_simp

section \<open>Sparse task update\<close>


lemma update_task_tasks:
  assumes "update_task e u tid b s = (r, s')" and "status_code r = 200"
  shows "tasks s' =
           map (\<lambda>t. if t_task_id t = tid
                    then t\<lparr>t_title := if truthy (b_title b) then js_str (b_title b) else t_title t,
                           t_description := if b_description b \<noteq> Undefined
                                            then sql_param (b_description b) else t_description t,
                           t_due_date := if b_due_date b \<noteq> Undefined
                                         then sql_param (b_due_date b) else t_due_date t,
                           t_priority := if truthy (b_priority b) then js_str (b_priority b)
                                         else t_priority t,
                           t_status := if truthy (b_status b) then js_str (b_status b)
                                       else t_status t,
                           t_project_id := if b_project_id b \<noteq> Undefined
                                           then sql_param (b_project_id b) else t_project_id t,
                           t_updated_at := timestamp e\<rparr>
                    else t) (tasks s)"
proof -
  from assms obtain s1 rows where ok: "update_tasks (update_fields e b) tid s = Inr (s1, rows)"
    and s': "s' = io_emit ''task_updated''
                    \<lparr>event = ''task_updated'',
                      data = TaskUpdatedPayload tid
                               \<lparr>uf_status = b_status b, uf_priority = b_priority b,
                                 uf_due_date = b_due_date b\<rparr> (timestamp e)\<rparr> s1"
    by (auto simp: update_task_def Let_def reply_def internal_server_error_def
        split: list.splits if_splits sum.splits)
  from ok obtain ts' where rows: "update_rows (update_fields e b) tid (projects s) (tasks s) = Inr ts'"
    and s1: "tasks s1 = ts'"
    by (auto simp: update_tasks_def split: sum.splits if_splits)
  have "tasks s' = ts'"
    using s' s1 by (simp add: io_emit_def)
  moreover have "ts' = map (\<lambda>t. if t_task_id t = tid
                    then t\<lparr>t_title := if truthy (b_title b) then js_str (b_title b) else t_title t,
                           t_description := if b_description b \<noteq> Undefined
                                            then sql_param (b_description b) else t_description t,
                           t_due_date := if b_due_date b \<noteq> Undefined
                                         then sql_param (b_due_date b) else t_due_date t,
                           t_priority := if truthy (b_priority b) then js_str (b_priority b)
                                         else t_priority t,
                           t_status := if truthy (b_status b) then js_str (b_status b)
                                       else t_status t,
                           t_project_id := if b_project_id b \<noteq> Undefined
                                           then sql_param (b_project_id b) else t_project_id t,
                           t_updated_at := timestamp e\<rparr>
                    else t) (tasks s)"
    by (rule update_rows_map [OF _ rows]) (simp add: assign_update_fields)
  ultimately show ?thesis by simp
qed

text \<open>
  C6, amended: for every successful task update by the creator, \<open>title\<close>, \<open>priority\<close> and
  \<open>status\<close> are changed to the supplied value when it is a non-empty string and are left
  untouched otherwise; \<open>description\<close>, \<open>due_date\<close> and \<open>project_id\<close> are changed to the
  supplied value whenever the key is present (an empty string and null included, null
  storing NULL) and are left untouched when it is absent; \<open>updated_at\<close> is always
  refreshed, also when no field is supplied; no other column and no other task changes.
\<close>

theorem update_task_sparse:
  assumes "update_task e u tid b s = (r, s')" and "status_code r = 200"
  shows "tasks s' =
           map (\<lambda>t. if t_task_id t = tid
                    then t\<lparr>t_title := if truthy (b_title b) then js_str (b_title b) else t_title t,
                           t_description := if b_description b \<noteq> Undefined
                                            then sql_param (b_description b) else t_description t,
                           t_due_date := if b_due_date b \<noteq> Undefined
                                         then sql_param (b_due_date b) else t_due_date t,
                           t_priority := if truthy (b_priority b) then js_str (b_priority b)
                                         else t_priority t,
                           t_status := if truthy (b_status b) then js_str (b_status b)
                                       else t_status t,
                           t_project_id := if b_project_id b \<noteq> Undefined
                                           then sql_param (b_project_id b) else t_project_id t,
                           t_updated_at := timestamp e\<rparr>
                    else t) (tasks s)"
  using assms by (rule update_task_tasks)

text \<open>
  Alice's update of \<open>task1\<close> with \<open>{description: null, status: "completed"}\<close>, and her
  update with an empty body.
\<close>

theorem update_task_sparse_witness:
  "status_code (fst (update_task sample_env alice ''task1''
                       (empty_body\<lparr>b_description := Null, b_status := Val ''completed''\<rparr>) seed)) = 200 \<and>
   tasks (snd (update_task sample_env alice ''task1''
                 (empty_body\<lparr>b_description := Null, b_status := Val ''completed''\<rparr>) seed)) =
     [seed_task1\<lparr>t_description := None, t_status := ''completed'',
                  t_updated_at := ''2023-10-06T09:00:00.000Z''\<rparr>,
      seed_task2, seed_task3, seed_task4] \<and>
   status_code (fst (update_task sample_env alice ''task1'' empty_body seed)) = 200 \<and>
   tasks (snd (update_task sample_env alice ''task1'' empty_body seed)) =
     [seed_task1\<lparr>t_updated_at := ''2023-10-06T09:00:00.000Z''\<rparr>,
      seed_task2, seed_task3, seed_task4]"
proof -
  let ?b = "empty_body\<lparr>b_description := Null, b_status := Val ''completed''\<rparr>"
  have ok1: "status_code (fst (update_task sample_env alice ''task1'' ?b seed)) = 200"
    by code_simp
  have ok2: "status_code (fst (update_task sample_env alice ''task1'' empty_body seed)) = 200"
    by code_simp
  have ids: "map t_task_id (tasks seed) = [''task1'', ''task2'', ''task3'', ''task4'']"
    "tasks seed = [seed_task1, seed_task2, seed_task3, seed_task4]"
    "timestamp sample_env = ''2023-10-06T09:00:00.000Z''"
    by (simp_all add: seed_def seed_task1_def seed_task2_def seed_task3_def seed_task4_def
        sample_env_def)
  have t: "t_task_id seed_task1 = ''task1''" "t_task_id seed_task2 = ''task2''"
    "t_task_id seed_task3 = ''task3''" "t_task_id seed_task4 = ''task4''"
    by (simp_all add: seed_task1_def seed_task2_def seed_task3_def seed_task4_def)
  from update_task_sparse [OF prod.collapse [symmetric] ok1]
    update_task_sparse [OF prod.collapse [symmetric] ok2] ok1 ok2
  show ?thesis
    by (simp add: ids t empty_body_def)
qed

text \<open>
  C6, as stated, fails: not every supplied field is changed, and a falsy field is not
  always left alone. Alice updates \<open>task1\<close> with \<open>{title: "", description: ""}\<close>: the
  update succeeds, the title stays as it was and the description is overwritten with the
  empty string.
\<close>

theorem update_task_empty_strings:
  "(case update_task sample_env alice ''task1''
           (empty_body\<lparr>b_title := Val [], b_description := Val []\<rparr>) seed of
      (r, s') \<Rightarrow>
        status_code r = 200 \<and>
        map t_title (select_task ''task1'' seed) = [''Create wireframes''] \<and>
        map t_title (select_task ''task1'' s') = [''Create wireframes''] \<and>
        map t_description (select_task ''task1'' seed) =
          [Some ''Design initial wireframes for the website redesign''] \<and>
        map t_description (select_task ''task1'' s') = [Some []])"
  by code_simp

section \<open>Registration\<close>


lemma insert_user_emails:
  assumes "distinct (map u_email (users s))" and "insert_user w s = Inr s'"
  shows "distinct (map u_email (users s'))"
  using assms by (auto simp: insert_user_def split: if_splits)

lemma register_emails:
  assumes "distinct (map u_email (users s))"
  shows "distinct (map u_email (users (snd (register e b s))))"
  using assms
  by (auto simp: register_def Let_def dest: insert_user_emails split: sum.splits)

lemma register_all_emails:
  "distinct (map u_email (users s)) \<Longrightarrow> distinct (map u_email (users (register_all rs s)))"
proof (induction rs arbitrary: s)
  case Nil
  then show ?case by simp
next
  case (Cons r rs)
  obtain e b where r: "r = (e, b)" by (cases r)
  show ?case
    unfolding r using Cons.IH [OF register_emails [OF Cons.prems]] by simp
qed

lemma select_users_by_email_nonempty:
  "em \<in> set (map u_email (users s)) \<Longrightarrow> length (select_users_by_email em s) > 0"
  by (auto simp: select_users_by_email_def filter_empty_conv)

text \<open>
  C7, amended: for every registration request with non-empty name, email and password
  whose email equals the email of an already-stored user, the request fails with
  \<open>Email already in use\<close> and the server state is unchanged; and after any sequence of
  registration requests the stored emails are pairwise different, if they were before.
\<close>

theorem register_duplicate_email:
  "(truthy (rb_name b) \<and> truthy (rb_email b) \<and> truthy (rb_password b) \<and>
    js_str (rb_email b) \<in> set (map u_email (users s)) \<longrightarrow>
      register e b s = (reply 400 (Message ''Email already in use''), s)) \<and>
   (distinct (map u_email (users s)) \<longrightarrow>
      distinct (map u_email (users (register_all rs s))))"
proof (intro conjI impI)
  assume "truthy (rb_name b) \<and> truthy (rb_email b) \<and> truthy (rb_password b) \<and>
    js_str (rb_email b) \<in> set (map u_email (users s))"
  then show "register e b s = (reply 400 (Message ''Email already in use''), s)"
    using select_users_by_email_nonempty [of "js_str (rb_email b)" s]
    by (simp add: register_def)
next
  assume "distinct (map u_email (users s))"
  then show "distinct (map u_email (users (register_all rs s)))"
    by (rule register_all_emails)
qed


text \<open>Dana registers on the seed data.\<close>

lemma register_dana:
  "register sample_env dana_body seed =
     (reply 201 (AuthBody ''Registration successful''
        \<lparr>jwt_payload = \<lparr>user_id = ''uuid-'', email = ''dana@example.com'', name = ''Dana'',
                          user_role = ''user''\<rparr>,
          jwt_exp = 87400, jwt_key = ''your_jwt_secret''\<rparr>
        \<lparr>user_id = ''uuid-'', email = ''dana@example.com'', name = ''Dana'',
          user_role = ''user''\<rparr>), seed_with_dana)"
  by (simp add: register_def dana_body_def select_users_by_email_def seed_def seed_users_def
      insert_user_def sample_env_def jwt_sign_def JWT_SECRET_def seed_with_dana_def dana_def
      Let_def rejected_simps has_nul_def)

lemma seed_with_dana_emails:
  "map u_email (users seed_with_dana) =
     [''alice@example.com'', ''bob@example.com'', ''cindy@example.com'', ''dana@example.com'']"
  by (simp add: seed_with_dana_def seed_users_def dana_def)

text \<open>A second registration of Dana's email is refused and changes nothing.\<close>

theorem register_duplicate_email_witness:
  "register sample_env dana_body seed_with_dana =
     (reply 400 (Message ''Email already in use''), seed_with_dana) \<and>
   distinct (map u_email (users seed)) \<and>
   distinct (map u_email (users (register_all [(sample_env, dana_body), (sample_env, dana_body)] seed)))"
proof -
  have a: "truthy (rb_name dana_body) \<and> truthy (rb_email dana_body) \<and>
      truthy (rb_password dana_body) \<and>
      js_str (rb_email dana_body) \<in> set (map u_email (users seed_with_dana))"
    by (simp add: seed_with_dana_emails) (simp add: dana_body_def)
  have d: "distinct (map u_email (users seed))"
    by (simp add: seed_def seed_users_def)
  from register_duplicate_email [where b = dana_body and e = sample_env
      and s = seed_with_dana] a
    register_duplicate_email [where s = seed
      and rs = "[(sample_env, dana_body), (sample_env, dana_body)]"] d
  show ?thesis by blast
qed

text \<open>
  C7, as stated, fails: the required-field check comes first. A request with Alice's
  stored email and an empty name is answered \<open>Name, email, and password are required\<close>,
  not \<open>Email already in use\<close>.
\<close>

theorem register_invalid_input_first:
  "''alice@example.com'' \<in> set (map u_email (users seed)) \<and>
   register sample_env
     \<lparr>rb_name = Val [], rb_email = Val ''alice@example.com'', rb_password = Val ''s3cret'',
       rb_profile_picture = Undefined\<rparr> seed =
     (reply 400 (Message ''Name, email, and password are required''), seed) \<and>
   reply 400 (Message ''Name, email, and password are required'') \<noteq>
     reply 400 (Message ''Email already in use'')"
  by (simp add: register_def seed_def seed_users_def reply_def)

section \<open>Login\<close>




text \<open>Dana logs in after her registration.\<close>

lemma login_dana:
  "login sample_env
     \<lparr>lb_email = Val ''dana@example.com'', lb_password = Val (JString ''s3cret'')\<rparr>
     seed_with_dana =
     (reply 200 (AuthBody ''Login successful''
        \<lparr>jwt_payload = \<lparr>user_id = ''uuid-'', email = ''dana@example.com'', name = ''Dana'',
                          user_role = ''user''\<rparr>,
          jwt_exp = 87400, jwt_key = ''your_jwt_secret''\<rparr>
        \<lparr>user_id = ''uuid-'', email = ''dana@example.com'', name = ''Dana'',
          user_role = ''user''\<rparr>), seed_with_dana)"
  by (simp add: login_def pool_query_def rejected_simps has_nul_def select_users_by_email_def
      seed_def seed_users_def bcrypt_compare_data_def sample_env_def jwt_sign_def
      JWT_SECRET_def seed_with_dana_def dana_def Let_def)


section \<open>Priority and status of stored tasks\<close>


lemma insert_task_domain:
  assumes "insert_task tid ttl descr due (sql_param (default_to ''medium'' (b_priority b)))
             (sql_param (default_to ''pending'' (b_status b))) creator proj c_at u_at s = Inr s'"
    and "body_in_domain b" and "list_all task_in_domain (tasks s)"
  shows "list_all task_in_domain (tasks s')"
proof -
  obtain p st where ps: "sql_param (default_to ''medium'' (b_priority b)) = Some p"
    "sql_param (default_to ''pending'' (b_status b)) = Some st"
    using assms(1) by (auto simp: insert_task_def split: option.splits if_splits)
  have "p \<in> priorities"
    using ps(1) assms(2) by (cases "b_priority b") (auto simp: body_in_domain_def priorities_def)
  moreover have "st \<in> statuses"
    using ps(2) assms(2) by (cases "b_status b") (auto simp: body_in_domain_def statuses_def)
  ultimately show ?thesis
    using assms(1,3) ps by (auto simp: insert_task_def task_in_domain_def split: if_splits)
qed

lemma create_task_domain:
  assumes "list_all task_in_domain (tasks s)" and "body_in_domain b"
  shows "list_all task_in_domain (tasks (snd (create_task e u b s)))"
proof -
  define P where "P = (\<lambda>s::server. list_all task_in_domain (tasks s))"
  obtain x s1 where rn: "run (task_inserts e u b) s = (x, s1)"
    by (cases "run (task_inserts e u b) s")
  have k0: "P a \<longrightarrow>
      insert_task tid ttl descr due (sql_param (default_to ''medium'' (b_priority b)))
        (sql_param (default_to ''pending'' (b_status b))) creator proj c_at u_at a = Inr a'
      \<longrightarrow> P a'" for a a' tid ttl descr due creator proj c_at u_at
    unfolding P_def using insert_task_domain [OF _ assms(2)] by blast
  have "\<forall>q \<in> set (task_inserts e u b). \<forall>a a'. P a \<longrightarrow> q a = Inr a' \<longrightarrow> P a'"
    unfolding task_inserts_def Let_def set_append
  proof (intro ballI allI impI)
    fix q a a'
    assume q: "q \<in> set [insert_task (uuidv4 e 0) (js_str (b_title b)) (or_null (b_description b))
            (or_null (b_due_date b)) (sql_param (default_to ''medium'' (b_priority b)))
            (sql_param (default_to ''pending'' (b_status b)))
            (user_id u) (or_null (b_project_id b)) (timestamp e) (timestamp e)] \<union>
         (set (map (\<lambda>(i, st). insert_subtask (uuidv4 e i) (uuidv4 e 0) (sql_param st) (timestamp e))
             (enumerate 1 (b_subtasks b))) \<union>
         (set (map (\<lambda>(i, a). insert_task_assignee (uuidv4 e i) (uuidv4 e 0) a (timestamp e))
             (enumerate (1 + length (b_subtasks b)) (b_assignees b))) \<union>
         set (map (\<lambda>(i, l). insert_task_label (uuidv4 e i) (uuidv4 e 0) l)
             (enumerate (1 + length (b_subtasks b) + length (b_assignees b)) (b_labels b)))))"
      and pa: "P a" and r: "q a = Inr a'"
    from q consider (task) "q = insert_task (uuidv4 e 0) (js_str (b_title b))
            (or_null (b_description b)) (or_null (b_due_date b))
            (sql_param (default_to ''medium'' (b_priority b)))
            (sql_param (default_to ''pending'' (b_status b)))
            (user_id u) (or_null (b_project_id b)) (timestamp e) (timestamp e)"
      | (child) "tasks a' = tasks a"
      using r by (auto dest: child_insert_tasks)
    then show "P a'"
    proof cases
      case task
      then show ?thesis using k0 pa r by blast
    next
      case child
      then show ?thesis using pa by (simp add: P_def)
    qed
  qed
  moreover have "P s" using assms(1) by (simp add: P_def)
  ultimately have "P s1" using rn by (rule run_invariant)
  then have s1: "list_all task_in_domain (tasks s1)" by (simp add: P_def)
  have "snd (create_task e u b s) = s \<or> snd (create_task e u b s) = s1
      \<or> (\<exists>ev m. snd (create_task e u b s) = io_emit ev m s1)"
    using rn by (auto simp: create_task_def Let_def split: option.splits)
  then show ?thesis
    using assms(1) s1 by (auto simp: io_emit_def)
qed

lemma update_task_unchanged:
  "status_code (fst (update_task e u tid b s)) \<noteq> 200 \<Longrightarrow> snd (update_task e u tid b s) = s"
  by (auto simp: update_task_def Let_def reply_def split: list.splits sum.splits)

lemma patched_task_domain:
  assumes "body_in_domain b" and "task_in_domain t"
  shows "task_in_domain
           (t\<lparr>t_title := x1, t_description := x2, t_due_date := x3,
              t_priority := if truthy (b_priority b) then js_str (b_priority b) else t_priority t,
              t_status := if truthy (b_status b) then js_str (b_status b) else t_status t,
              t_project_id := x4, t_updated_at := x5\<rparr>)"
proof -
  have "truthy (b_priority b) \<longrightarrow> js_str (b_priority b) \<in> priorities"
    using assms(1) by (cases "b_priority b") (simp_all add: body_in_domain_def)
  moreover have "truthy (b_status b) \<longrightarrow> js_str (b_status b) \<in> statuses"
    using assms(1) by (cases "b_status b") (simp_all add: body_in_domain_def)
  ultimately show ?thesis
    using assms(2) by (simp add: task_in_domain_def)
qed

lemma update_task_domain:
  assumes "list_all task_in_domain (tasks s)" and "body_in_domain b"
  shows "list_all task_in_domain (tasks (snd (update_task e u tid b s)))"
proof (cases "status_code (fst (update_task e u tid b s)) = 200")
  case True
  show ?thesis
    unfolding update_task_tasks [OF prod.collapse [symmetric] True]
    using assms(1)
    by (auto simp: list_all_iff intro!: patched_task_domain [OF assms(2)])
next
  case False
  then show ?thesis
    using assms(1) by (simp add: update_task_unchanged)
qed

lemma serve_domain:
  assumes "list_all task_in_domain (tasks s)" and "body_in_domain (request_body q)"
  shows "list_all task_in_domain (tasks (serve q s))"
  using assms by (cases q) (simp_all add: create_task_domain update_task_domain)

text \<open>
  C9, amended: the handlers store \<open>priority\<close> and \<open>status\<close> as the request gives them
  and check neither. Every stored task has priority in \<open>{low, medium, high}\<close> and status in
  \<open>{pending, in_progress, completed}\<close> after any sequence of task create and task update
  requests whose bodies, where they give \<open>priority\<close> or \<open>status\<close> a value, take it from
  those sets (an omitted priority or status is stored as \<open>medium\<close> or \<open>pending\<close> on
  create and left as it is on update), provided every stored task had them before.
\<close>

theorem task_domain_preserved:
  assumes "list_all task_in_domain (tasks s)"
    and "list_all (\<lambda>q. body_in_domain (request_body q)) qs"
  shows "list_all task_in_domain (tasks (serve_all qs s))"
  using assms
proof (induction qs arbitrary: s)
  case Nil
  then show ?case by simp
next
  case (Cons q qs)
  have "list_all task_in_domain (tasks (serve q s))"
    using Cons.prems by (simp add: serve_domain)
  then show ?case
    using Cons.IH [of "serve q s"] Cons.prems(2) by simp
qed

lemma seed_in_domain: "list_all task_in_domain (tasks seed)"
  by (simp add: seed_def seed_task1_def seed_task2_def seed_task3_def seed_task4_def
      task_in_domain_def priorities_def statuses_def)

text \<open>A creation with priority \<open>high\<close> and an update to status \<open>completed\<close> on the seed data.\<close>

theorem task_domain_preserved_witness:
  "list_all task_in_domain (tasks seed) \<and>
   list_all task_in_domain
     (tasks (serve_all
        [Create sample_env alice (empty_body\<lparr>b_title := Val ''Write spec'', b_priority := Val ''high''\<rparr>),
         Update sample_env alice ''task1'' (empty_body\<lparr>b_status := Val ''completed''\<rparr>)] seed)) \<and>
   map t_task_id (tasks (serve_all
        [Create sample_env alice (empty_body\<lparr>b_title := Val ''Write spec'', b_priority := Val ''high''\<rparr>),
         Update sample_env alice ''task1'' (empty_body\<lparr>b_status := Val ''completed''\<rparr>)] seed)) =
     [''task1'', ''task2'', ''task3'', ''task4'', ''uuid-'']"
proof -
  have b: "list_all (\<lambda>q. body_in_domain (request_body q))
     [Create sample_env alice (empty_body\<lparr>b_title := Val ''Write spec'', b_priority := Val ''high''\<rparr>),
      Update sample_env alice ''task1'' (empty_body\<lparr>b_status := Val ''completed''\<rparr>)]"
    by (simp add: body_in_domain_def empty_body_def priorities_def statuses_def)
  have c: "map t_task_id (tasks (serve_all
        [Create sample_env alice (empty_body\<lparr>b_title := Val ''Write spec'', b_priority := Val ''high''\<rparr>),
         Update sample_env alice ''task1'' (empty_body\<lparr>b_status := Val ''completed''\<rparr>)] seed)) =
     [''task1'', ''task2'', ''task3'', ''task4'', ''uuid-'']"
    by code_simp
  from task_domain_preserved [OF seed_in_domain b] seed_in_domain c show ?thesis
    by simp
qed

text \<open>
  C9, as stated, fails: Alice creates a task with priority \<open>urgent\<close>, and updates \<open>task1\<close>
  to status \<open>blocked\<close>; both requests succeed and the values are stored.
\<close>

theorem unchecked_priority_and_status:
  "''urgent'' \<notin> priorities \<and> ''blocked'' \<notin> statuses \<and>
   (case create_task sample_env alice
           (empty_body\<lparr>b_title := Val ''Write spec'', b_priority := Val ''urgent''\<rparr>) seed of
      (r, s') \<Rightarrow> status_code r = 201 \<and>
                 map t_priority (select_task ''uuid-'' s') = [''urgent'']) \<and>
   (case update_task sample_env alice ''task1'' (empty_body\<lparr>b_status := Val ''blocked''\<rparr>) seed of
      (r, s') \<Rightarrow> status_code r = 200 \<and>
                 map t_status (select_task ''task1'' s') = [''blocked''])"
  by code_simp

section \<open>The payload of task_updated\<close>


text \<open>
  C10: for every successful task update, the \<open>updated_fields\<close> of the \<open>task_updated\<close>
  event that each socket is sent is the object built from the request body's \<open>status\<close>,
  \<open>priority\<close> and \<open>due_date\<close> only (an absent one is \<open>undefined\<close>), whatever the
  update changed; a change of \<open>title\<close>, \<open>description\<close> or \<open>project_id\<close> never shows in
  it.
\<close>

theorem updated_fields_from_body:
  assumes "update_task e u tid b s = (r, s')" and "status_code r = 200"
    and "k \<in> set (sockets s')"
  shows "received k \<noteq> [] \<and> fst (last (received k)) = ''task_updated'' \<and>
         updated_fields_of (snd (last (received k))) =
           Some \<lparr>uf_status = b_status b, uf_priority = b_priority b,
                  uf_due_date = b_due_date b\<rparr>"
proof -
  have "delivered ''task_updated''
          (TaskUpdatedPayload tid
             \<lparr>uf_status = b_status b, uf_priority = b_priority b,
               uf_due_date = b_due_date b\<rparr> (timestamp e)) s s'"
    using update_task_events [OF assms(1)] assms(2) by simp
  then obtain k0 where "k = k0\<lparr>received := received k0 @
      [(''task_updated'',
        \<lparr>event = ''task_updated'',
          data = TaskUpdatedPayload tid
                   \<lparr>uf_status = b_status b, uf_priority = b_priority b,
                     uf_due_date = b_due_date b\<rparr> (timestamp e)\<rparr>)]\<rparr>"
    using assms(3) by (auto simp: delivered_def)
  then show ?thesis
    by (simp add: updated_fields_of_def)
qed

text \<open>
  With Bob connected, Alice renames \<open>task1\<close>: the title changes and the event carries three
  undefined fields.
\<close>

theorem updated_fields_from_body_witness:
  "status_code (fst (update_task sample_env alice ''task1''
                       (empty_body\<lparr>b_title := Val ''Draw wireframes''\<rparr>) seed_online)) = 200 \<and>
   map t_title (select_task ''task1''
                  (snd (update_task sample_env alice ''task1''
                          (empty_body\<lparr>b_title := Val ''Draw wireframes''\<rparr>) seed_online))) =
     [''Draw wireframes''] \<and>
   map (\<lambda>k. updated_fields_of (snd (last (received k))))
     (sockets (snd (update_task sample_env alice ''task1''
                      (empty_body\<lparr>b_title := Val ''Draw wireframes''\<rparr>) seed_online))) =
     [Some \<lparr>uf_status = Undefined, uf_priority = Undefined, uf_due_date = Undefined\<rparr>]"
proof -
  let ?U = "update_task sample_env alice ''task1''
              (empty_body\<lparr>b_title := Val ''Draw wireframes''\<rparr>) seed_online"
  have ok: "status_code (fst ?U) = 200"
    by code_simp
  have ttl: "map t_title (select_task ''task1'' (snd ?U)) = [''Draw wireframes'']"
    by code_simp
  have n: "length (sockets (snd ?U)) = 1"
    by code_simp
  then obtain k where k: "sockets (snd ?U) = [k]"
    by (cases "sockets (snd ?U)") auto
  then have "k \<in> set (sockets (snd ?U))" by simp
  from updated_fields_from_body [OF prod.collapse [symmetric] ok this]
  have "updated_fields_of (snd (last (received k))) =
      Some \<lparr>uf_status = Undefined, uf_priority = Undefined, uf_due_date = Undefined\<rparr>"
    by (simp add: empty_body_def)
  with ok ttl k show ?thesis by simp
qed

section \<open>Connection registry\<close>

text \<open>
  A socket is registered exactly when the handshake middleware accepts its token; a
  refused handshake leaves the registry as it was.
\<close>

lemma connect_registers_verified:
  "(fst (connect e sid a q s) = None \<longleftrightarrow> (\<exists>c. io_use e a q = Inr c)) \<and>
   (fst (connect e sid a q s) \<noteq> None \<longrightarrow> snd (connect e sid a q s) = s)"
  by (cases "io_use e a q") (simp_all add: connect_def)

text \<open>What is emitted after a socket has disconnected does not reach it.\<close>

lemma disconnect_stops_delivery:
  "\<forall>k \<in> set (sockets (io_emit ev m (disconnect sid s))). socket_id k \<noteq> sid"
  by (simp add: io_emit_def disconnect_def)

end
